theory Spec2Isabelle
  imports Main "HOL-Library.Word"
begin

section \<open>JavaScript strings\<close>

text \<open>
  Strings are byte lists (UTF-8). The helpers below are the library calls the two servers
  make on strings: \<^verbatim>\<open>startsWith\<close>, \<^verbatim>\<open>endsWith\<close>, \<^verbatim>\<open>split("-")[0]\<close>,
  \<^verbatim>\<open>join\<close>, and the decimal text of a non-negative integer inside a template literal.
\<close>

definition startsWith :: "string \<Rightarrow> string \<Rightarrow> bool" where
  "startsWith s p = (take (length p) s = p)"

definition endsWith :: "string \<Rightarrow> string \<Rightarrow> bool" where
  "endsWith s p = (length p \<le> length s \<and> drop (length s - length p) s = p)"

text \<open>\<^verbatim>\<open>s.split("-")[0]\<close>: the text before the first hyphen, all of \<open>s\<close> when it has none.\<close>

definition split_first :: "string \<Rightarrow> string" where
  "split_first s = takeWhile (\<lambda>c. c \<noteq> CHR ''-'') s"

definition nl :: string where
  "nl = [CHR 0x0A]"

fun join :: "string \<Rightarrow> string list \<Rightarrow> string" where
  "join sep [] = []"
| "join sep [x] = x"
| "join sep (x # y # ys) = x @ sep @ join sep (y # ys)"

definition digit_char :: "nat \<Rightarrow> char" where
  "digit_char d = ''0123456789'' ! d"

fun show_nat :: "nat \<Rightarrow> string" where
  "show_nat n = (if n < 10 then [digit_char n] else show_nat (n div 10) @ [digit_char (n mod 10)])"

text \<open>The marks of a broadcast summary, U+2713 and U+2717, as their UTF-8 bytes.\<close>

definition check_mark :: string where
  "check_mark = [CHR 0xE2, CHR 0x9C, CHR 0x93]"

definition cross_mark :: string where
  "cross_mark = [CHR 0xE2, CHR 0x9C, CHR 0x97]"

section \<open>Direct transport: the presence files (src/unnamed/part_000)\<close>

text \<open>
  What \<^verbatim>\<open>JSON.parse\<close> gives for the content of a presence file. An object is the list
  of its members, key and value, each key once; the values are JSON strings, as the
  \<^verbatim>\<open>AgentInfo\<close> interface declares them, and a member that is \<^verbatim>\<open>null\<close> is left out
  like one that is absent. Reading a property of \<^verbatim>\<open>null\<close> throws; reading one of any
  other non-object value (a number, a string, a boolean, an array) gives \<^verbatim>\<open>undefined\<close>.
\<close>

datatype json = JNull | JObject "(string \<times> string) list" | JOther

text \<open>
  A directory entry of \<^verbatim>\<open>/tmp\<close>: its name, what \<^verbatim>\<open>statSync\<close> gives as \<^verbatim>\<open>mtimeMs\<close>
  (\<open>None\<close> when it throws) and what \<^verbatim>\<open>readFileSync\<close> followed by \<^verbatim>\<open>JSON.parse\<close> gives
  (\<open>None\<close> when either throws). Times are in whole milliseconds.
\<close>

record dirent =
  fname :: string
  mtimeMs :: "int option"
  parsed :: "json option"

record AgentInfo =
  info_id :: string
  info_name :: string
  info_tmux_pane :: string
  info_is_stale :: bool

definition staleThreshold :: int where
  "staleThreshold = 5 * 60 * 1000"

text \<open>\<^verbatim>\<open>data.key\<close> on a value that is not \<^verbatim>\<open>null\<close>.\<close>

fun field :: "json \<Rightarrow> string \<Rightarrow> string option" where
  "field (JObject members) key = map_of members key"
| "field _ key = None"

text \<open>\<^verbatim>\<open>v || "unknown"\<close>\<close>

fun or_unknown :: "string option \<Rightarrow> string" where
  "or_unknown None = ''unknown''"
| "or_unknown (Some s) = (if s = [] then ''unknown'' else s)"

text \<open>
  The pane address of a presence record: \<^verbatim>\<open>session:window.pane\<close> when the three members
  are truthy (present and not the empty string), the empty string otherwise.
\<close>

definition pane_address :: "json \<Rightarrow> string" where
  "pane_address data =
     (case (field data ''tmux_session'', field data ''tmux_window'', field data ''tmux_pane'') of
        (Some s, Some w, Some p) \<Rightarrow>
          if s \<noteq> [] \<and> w \<noteq> [] \<and> p \<noteq> [] then s @ '':'' @ w @ ''.'' @ p else []
      | _ \<Rightarrow> [])"

text \<open>
  The body of the inner \<^verbatim>\<open>try\<close> of \<^verbatim>\<open>getActiveAgents\<close> for one file: the record it
  pushes, or \<open>None\<close> when the file is skipped (a throw, caught, or the \<^verbatim>\<open>continue\<close> of a
  stale file).
\<close>

definition agentOfFile :: "bool \<Rightarrow> int \<Rightarrow> dirent \<Rightarrow> AgentInfo option" where
  "agentOfFile includeStale now f =
     (case mtimeMs f of
        None \<Rightarrow> None
      | Some mt \<Rightarrow>
          (case parsed f of
             None \<Rightarrow> None
           | Some data \<Rightarrow>
               (let fileAge = now - mt;
                    isStale = (fileAge > staleThreshold)
                in if \<not> includeStale \<and> isStale then None
                   else (case data of
                           JNull \<Rightarrow> None
                         | _ \<Rightarrow> Some \<lparr> info_id = or_unknown (field data ''agent_id''),
                                       info_name = or_unknown (field data ''agent_name''),
                                       info_tmux_pane = pane_address data,
                                       info_is_stale = isStale \<rparr>))))"

fun collect_agents :: "bool \<Rightarrow> int \<Rightarrow> dirent list \<Rightarrow> AgentInfo list \<Rightarrow> AgentInfo list" where
  "collect_agents includeStale now [] agents = agents"
| "collect_agents includeStale now (f # files) agents =
     collect_agents includeStale now files
       (case agentOfFile includeStale now f of
          None \<Rightarrow> agents
        | Some a \<Rightarrow> agents @ [a])"

definition is_agent_file :: "string \<Rightarrow> bool" where
  "is_agent_file f = (startsWith f ''claude_agent_'' \<and> endsWith f ''.json'')"

text \<open>
  \<^verbatim>\<open>getActiveAgents(includeStale)\<close> at time \<open>now\<close> (\<^verbatim>\<open>Date.now()\<close>) on the directory
  \<open>dir\<close> (\<open>None\<close> when \<^verbatim>\<open>readdirSync\<close> throws).
\<close>

definition getActiveAgents :: "bool \<Rightarrow> int \<Rightarrow> dirent list option \<Rightarrow> AgentInfo list" where
  "getActiveAgents includeStale now dir =
     (case dir of
        None \<Rightarrow> []
      | Some entries \<Rightarrow>
          collect_agents includeStale now (filter (\<lambda>f. is_agent_file (fname f)) entries) [])"

definition discover_line :: "AgentInfo \<Rightarrow> string" where
  "discover_line a =
     ''- '' @ info_name a @ '' ('' @ info_id a @ ''): ''
       @ (if info_is_stale a then ''stale'' else ''active'')
       @ '' | pane: ''
       @ (if info_tmux_pane a = [] then ''unknown'' else info_tmux_pane a)"

definition agentDiscover :: "bool \<Rightarrow> int \<Rightarrow> dirent list option \<Rightarrow> string" where
  "agentDiscover include_stale now dir =
     (let agents = getActiveAgents include_stale now dir
      in if length agents = 0 then ''No agents currently registered.''
         else ''Active agents ('' @ show_nat (length agents) @ ''):'' @ nl
                @ join nl (map discover_line agents))"

section \<open>Direct transport: delivery through snd\<close>

text \<open>
  What a child process does, as the \<^verbatim>\<open>spawn\<close> caller sees it: a \<^verbatim>\<open>close\<close> event with the
  exit code (\<open>None\<close> for \<^verbatim>\<open>null\<close>, a process ended by a signal), the text it wrote to
  stdout and to stderr; or an \<^verbatim>\<open>error\<close> event, with the message of its \<^verbatim>\<open>Error\<close>.
  The world is an oracle: \<open>sp k argv\<close> is the fate of the \<open>k\<close>-th process a tool call
  spawns, started with the arguments \<open>argv\<close>. The executable is fixed when the server
  starts (\<^verbatim>\<open>SND_PATH\<close>, and \<^verbatim>\<open>nats\<close> for the bus).
\<close>

datatype proc_result = Close "nat option" string string | SpawnError string

type_synonym spawn = "nat \<Rightarrow> string list \<Rightarrow> proc_result"

fun show_code :: "nat option \<Rightarrow> string" where
  "show_code None = ''null''"
| "show_code (Some c) = show_nat c"

text \<open>
  \<^verbatim>\<open>runSnd(pane, message)\<close>: \<open>None\<close> when the promise resolves, the message of the
  \<^verbatim>\<open>Error\<close> it rejects with otherwise.
\<close>

definition runSnd :: "spawn \<Rightarrow> nat \<Rightarrow> string \<Rightarrow> string \<Rightarrow> string option" where
  "runSnd sp k pane message =
     (case sp k [''--pane'', pane, message] of
        Close code out err \<Rightarrow>
          if code = Some 0 then None else Some (''snd failed with code '' @ show_code code)
      | SpawnError m \<Rightarrow> Some m)"

text \<open>\<^verbatim>\<open>`${err}`\<close> of an \<^verbatim>\<open>Error\<close> with message \<open>m\<close>.\<close>

definition error_text :: "string \<Rightarrow> string" where
  "error_text m = ''Error: '' @ m"

text \<open>A call of the delivery transport: the pane and the text given to \<^verbatim>\<open>runSnd\<close>.\<close>

type_synonym snd_call = "string \<times> string"

datatype priority = Low | Normal | High

text \<open>
  The line \<^verbatim>\<open>agentBroadcast\<close> pushes for a target, from what \<^verbatim>\<open>runSnd\<close> did: the
  \<^verbatim>\<open>try\<close> branch when it resolved, the \<^verbatim>\<open>catch\<close> branch when it rejected.
\<close>

definition delivery_line :: "string option \<Rightarrow> AgentInfo \<Rightarrow> string" where
  "delivery_line settled target =
     (case settled of
        None \<Rightarrow> check_mark @ '' '' @ info_name target
      | Some m \<Rightarrow> cross_mark @ '' '' @ info_name target @ '': '' @ error_text m)"

text \<open>
  The \<^verbatim>\<open>for\<close> loop of \<^verbatim>\<open>agentBroadcast\<close>: \<open>k\<close> processes were spawned so far,
  \<open>results\<close> is the array of the same name, \<open>calls\<close> the transport calls made.
\<close>

fun deliver_all ::
  "spawn \<Rightarrow> string \<Rightarrow> AgentInfo list \<Rightarrow> nat \<Rightarrow> string list \<Rightarrow> snd_call list
     \<Rightarrow> string list \<times> snd_call list" where
  "deliver_all sp formattedMsg [] k results calls = (results, calls)"
| "deliver_all sp formattedMsg (target # targets) k results calls =
     deliver_all sp formattedMsg targets (Suc k)
       (results @ [delivery_line (runSnd sp k (info_tmux_pane target) formattedMsg) target])
       (calls @ [(info_tmux_pane target, formattedMsg)])"

text \<open>
  \<^verbatim>\<open>agentBroadcast({agent_id, message, priority})\<close>: the text it returns and the transport
  calls it made, in order.
\<close>

definition agentBroadcast ::
  "spawn \<Rightarrow> int \<Rightarrow> dirent list option \<Rightarrow> string \<Rightarrow> string \<Rightarrow> priority
     \<Rightarrow> string \<times> snd_call list" where
  "agentBroadcast sp now dir agent_id message prio =
     (let agents = getActiveAgents False now dir;
          senderName = split_first agent_id;
          targets = filter (\<lambda>a. info_id a \<noteq> agent_id \<and> info_tmux_pane a \<noteq> []) agents
      in if length targets = 0 then (''No other agents to broadcast to'', [])
         else
           (let formattedMsg = ''['' @ senderName @ ''] '' @ message;
                (results, calls) = deliver_all sp formattedMsg targets 0 [] []
            in (''Broadcast sent to '' @ show_nat (length targets) @ '' agent(s):'' @ nl
                  @ join nl results, calls)))"

text \<open>\<^verbatim>\<open>agentDM({agent_id, to, message})\<close>, likewise.\<close>

definition agentDM ::
  "spawn \<Rightarrow> int \<Rightarrow> dirent list option \<Rightarrow> string \<Rightarrow> string \<Rightarrow> string
     \<Rightarrow> string \<times> snd_call list" where
  "agentDM sp now dir agent_id to_id message =
     (let agents = getActiveAgents False now dir;
          senderName = split_first agent_id
      in case find (\<lambda>a. info_id a = to_id) agents of
           None \<Rightarrow> (''Agent '' @ to_id @ '' not found'', [])
         | Some target \<Rightarrow>
             if info_tmux_pane target = [] then (''Agent '' @ to_id @ '' has no tmux pane'', [])
             else
               (let formattedMsg = ''[DM from '' @ senderName @ ''] '' @ message
                in (case runSnd sp 0 (info_tmux_pane target) formattedMsg of
                      None \<Rightarrow> ''DM sent to '' @ info_name target
                    | Some m \<Rightarrow> ''Failed to send DM: '' @ error_text m,
                    [(info_tmux_pane target, formattedMsg)])))"

section \<open>Identity generator and registration\<close>

definition hex_digit :: "nat \<Rightarrow> char" where
  "hex_digit d = ''0123456789abcdef'' ! d"

text \<open>\<^verbatim>\<open>buf.toString("hex")\<close>\<close>

definition hex_byte :: "8 word \<Rightarrow> string" where
  "hex_byte b = [hex_digit (unat b div 16), hex_digit (unat b mod 16)]"

definition to_hex :: "8 word list \<Rightarrow> string" where
  "to_hex bytes = concat (map hex_byte bytes)"

text \<open>
  \<^verbatim>\<open>generateAgentId(name)\<close>, the same function in both servers; \<open>bytes\<close> is what
  \<^verbatim>\<open>randomBytes(4)\<close> returns.
\<close>

definition generateAgentId :: "string \<Rightarrow> 8 word list \<Rightarrow> string" where
  "generateAgentId agent_name bytes = agent_name @ ''-'' @ to_hex bytes"

text \<open>
  \<^verbatim>\<open>JSON.stringify\<close> of a string: quotes, backslashes and control characters are escaped,
  every other byte stands for itself.
\<close>

definition json_escape :: "char \<Rightarrow> string" where
  "json_escape c =
     (if c = CHR 0x22 then [CHR 0x5C, CHR 0x22]
      else if c = CHR 0x5C then [CHR 0x5C, CHR 0x5C]
      else if c = CHR 0x08 then [CHR 0x5C, CHR ''b'']
      else if c = CHR 0x09 then [CHR 0x5C, CHR ''t'']
      else if c = CHR 0x0A then [CHR 0x5C, CHR ''n'']
      else if c = CHR 0x0C then [CHR 0x5C, CHR ''f'']
      else if c = CHR 0x0D then [CHR 0x5C, CHR ''r'']
      else if (of_char c :: nat) < 32
        then [CHR 0x5C] @ ''u00'' @ [hex_digit (of_char c div 16), hex_digit (of_char c mod 16)]
      else [c])"

definition json_string :: "string \<Rightarrow> string" where
  "json_string s = [CHR 0x22] @ concat (map json_escape s) @ [CHR 0x22]"

text \<open>
  \<^verbatim>\<open>agentRegister({name, description})\<close> of the direct variant: it generates the id and
  returns the JSON text of the answer. It reads and writes nothing else.
\<close>

definition agentRegister :: "8 word list \<Rightarrow> string \<Rightarrow> string \<Rightarrow> string" where
  "agentRegister bytes agent_name description =
     (let agentId = generateAgentId agent_name bytes
      in ''{'' @ json_string ''agent_id'' @ '':'' @ json_string agentId @ '',''
           @ json_string ''message'' @ '':''
           @ json_string ''Registered. Use this agent_id for all subsequent calls.'' @ ''}'')"

definition agentDeregister :: "string \<Rightarrow> string" where
  "agentDeregister agent_id = ''Deregistered''"

section \<open>The tool handler of the direct variant\<close>

text \<open>
  The \<^verbatim>\<open>arguments\<close> of a tool call: a JSON object, as the list of its members, each
  a string, a boolean or something else; \<open>None\<close> when the request has none. A schema's \<^verbatim>\<open>parse\<close> gives the
  typed arguments, or \<open>None\<close> when it throws. An object schema drops the members it
  does not declare.
\<close>

datatype jsarg = AString string | ABoolean bool | AOther

type_synonym raw_args = "(string \<times> jsarg) list"

text \<open>\<^verbatim>\<open>z.string()\<close>\<close>

fun z_string :: "jsarg option \<Rightarrow> string option" where
  "z_string (Some (AString s)) = Some s"
| "z_string _ = None"

text \<open>\<^verbatim>\<open>z.enum(["low", "normal", "high"]).optional().default("normal")\<close>\<close>

fun z_priority :: "jsarg option \<Rightarrow> priority option" where
  "z_priority None = Some Normal"
| "z_priority (Some (AString s)) =
     (if s = ''low'' then Some Low
      else if s = ''normal'' then Some Normal
      else if s = ''high'' then Some High
      else None)"
| "z_priority _ = None"

text \<open>\<^verbatim>\<open>z.boolean().optional().default(false)\<close>\<close>

fun z_boolean_default_false :: "jsarg option \<Rightarrow> bool option" where
  "z_boolean_default_false None = Some False"
| "z_boolean_default_false (Some (ABoolean b)) = Some b"
| "z_boolean_default_false _ = None"

definition AgentRegisterSchema :: "raw_args option \<Rightarrow> (string \<times> string) option" where
  "AgentRegisterSchema args =
     (case args of
        None \<Rightarrow> None
      | Some m \<Rightarrow>
          (case (z_string (map_of m ''name''), z_string (map_of m ''description'')) of
             (Some n, Some d) \<Rightarrow> Some (n, d)
           | _ \<Rightarrow> None))"

definition AgentDeregisterSchema :: "raw_args option \<Rightarrow> string option" where
  "AgentDeregisterSchema args =
     (case args of None \<Rightarrow> None | Some m \<Rightarrow> z_string (map_of m ''agent_id''))"

definition AgentBroadcastSchema :: "raw_args option \<Rightarrow> (string \<times> string \<times> priority) option" where
  "AgentBroadcastSchema args =
     (case args of
        None \<Rightarrow> None
      | Some m \<Rightarrow>
          (case (z_string (map_of m ''agent_id''), z_string (map_of m ''message''), z_priority (map_of m ''priority'')) of
             (Some a, Some msg, Some p) \<Rightarrow> Some (a, msg, p)
           | _ \<Rightarrow> None))"

definition AgentDMSchema :: "raw_args option \<Rightarrow> (string \<times> string \<times> string) option" where
  "AgentDMSchema args =
     (case args of
        None \<Rightarrow> None
      | Some m \<Rightarrow>
          (case (z_string (map_of m ''agent_id''), z_string (map_of m ''to''), z_string (map_of m ''message'')) of
             (Some a, Some t, Some msg) \<Rightarrow> Some (a, t, msg)
           | _ \<Rightarrow> None))"

definition AgentDiscoverSchema :: "raw_args option \<Rightarrow> bool option" where
  "AgentDiscoverSchema args =
     (case args of None \<Rightarrow> None | Some m \<Rightarrow> z_boolean_default_false (map_of m ''include_stale''))"

datatype tool_error = ZodError | UnknownTool string

datatype response = Content string | IsError tool_error

text \<open>
  The \<^verbatim>\<open>CallToolRequestSchema\<close> handler. It answers a call in a world made of the
  process oracle, the next random bytes, the clock and the directory of presence files,
  and returns the answer, the transport calls made and the directory after the call: no
  tool writes, renames or removes a file, so that is the directory it was given.
\<close>

definition callTool ::
  "spawn \<Rightarrow> 8 word list \<Rightarrow> int \<Rightarrow> dirent list option \<Rightarrow> string \<Rightarrow> raw_args option
     \<Rightarrow> response \<times> snd_call list \<times> dirent list option" where
  "callTool sp bytes now dir tool args =
     (if tool = ''agent_register'' then
        (case AgentRegisterSchema args of
           None \<Rightarrow> (IsError ZodError, [], dir)
         | Some (n, d) \<Rightarrow> (Content (agentRegister bytes n d), [], dir))
      else if tool = ''agent_deregister'' then
        (case AgentDeregisterSchema args of
           None \<Rightarrow> (IsError ZodError, [], dir)
         | Some a \<Rightarrow> (Content (agentDeregister a), [], dir))
      else if tool = ''agent_broadcast'' then
        (case AgentBroadcastSchema args of
           None \<Rightarrow> (IsError ZodError, [], dir)
         | Some (a, msg, p) \<Rightarrow>
             (let (text, calls) = agentBroadcast sp now dir a msg p in (Content text, calls, dir)))
      else if tool = ''agent_dm'' then
        (case AgentDMSchema args of
           None \<Rightarrow> (IsError ZodError, [], dir)
         | Some (a, t, msg) \<Rightarrow>
             (let (text, calls) = agentDM sp now dir a t msg in (Content text, calls, dir)))
      else if tool = ''agent_discover'' then
        (case AgentDiscoverSchema args of
           None \<Rightarrow> (IsError ZodError, [], dir)
         | Some include_stale \<Rightarrow> (Content (agentDiscover include_stale now dir), [], dir))
      else (IsError (UnknownTool tool), [], dir))"

section \<open>Bus transport (src/src/index.ts)\<close>

text \<open>
  \<^verbatim>\<open>String.prototype.trim\<close>. It strips the white space and the line terminators of
  ECMAScript from both ends: TAB, LF, VT, FF, CR, SPACE, U+00A0, U+1680, U+2000 to U+200A,
  U+2028, U+2029, U+202F, U+205F, U+3000 and U+FEFF, here as their UTF-8 bytes.
\<close>

definition white_space :: "string list" where
  "white_space =
     [[CHR 0x09], [CHR 0x0A], [CHR 0x0B], [CHR 0x0C], [CHR 0x0D], [CHR 0x20],
      [CHR 0xC2, CHR 0xA0],
      [CHR 0xE1, CHR 0x9A, CHR 0x80],
      [CHR 0xE2, CHR 0x80, CHR 0x80], [CHR 0xE2, CHR 0x80, CHR 0x81],
      [CHR 0xE2, CHR 0x80, CHR 0x82], [CHR 0xE2, CHR 0x80, CHR 0x83],
      [CHR 0xE2, CHR 0x80, CHR 0x84], [CHR 0xE2, CHR 0x80, CHR 0x85],
      [CHR 0xE2, CHR 0x80, CHR 0x86], [CHR 0xE2, CHR 0x80, CHR 0x87],
      [CHR 0xE2, CHR 0x80, CHR 0x88], [CHR 0xE2, CHR 0x80, CHR 0x89],
      [CHR 0xE2, CHR 0x80, CHR 0x8A],
      [CHR 0xE2, CHR 0x80, CHR 0xA8], [CHR 0xE2, CHR 0x80, CHR 0xA9],
      [CHR 0xE2, CHR 0x80, CHR 0xAF],
      [CHR 0xE2, CHR 0x81, CHR 0x9F],
      [CHR 0xE3, CHR 0x80, CHR 0x80],
      [CHR 0xEF, CHR 0xBB, CHR 0xBF]]"

function trimStart :: "string \<Rightarrow> string" where
  "trimStart s =
     (case find (\<lambda>w. startsWith s w) white_space of
        None \<Rightarrow> s
      | Some w \<Rightarrow> trimStart (drop (length w) s))"
  by pat_completeness auto
termination
proof (relation "measure length")
  show "wf (measure length)" by simp
next
  fix s w assume "find (\<lambda>w. startsWith s w) white_space = Some w"
  then have w: "w \<in> set white_space" and p: "startsWith s w"
    by (auto simp: find_Some_iff)
  from w have "w \<noteq> []" by (auto simp: white_space_def)
  with p have "s \<noteq> []" by (auto simp: startsWith_def)
  with \<open>w \<noteq> []\<close> show "(drop (length w) s, s) \<in> measure length" by simp
qed

function trimEnd :: "string \<Rightarrow> string" where
  "trimEnd s =
     (case find (\<lambda>w. endsWith s w) white_space of
        None \<Rightarrow> s
      | Some w \<Rightarrow> trimEnd (take (length s - length w) s))"
  by pat_completeness auto
termination
proof (relation "measure length")
  show "wf (measure length)" by simp
next
  fix s w assume "find (\<lambda>w. endsWith s w) white_space = Some w"
  then have w: "w \<in> set white_space" and p: "endsWith s w"
    by (auto simp: find_Some_iff)
  from w have "w \<noteq> []" by (auto simp: white_space_def)
  with p have "s \<noteq> []" by (auto simp: endsWith_def)
  with \<open>w \<noteq> []\<close> show "(take (length s - length w) s, s) \<in> measure length" by simp
qed

definition trim :: "string \<Rightarrow> string" where
  "trim s = trimEnd (trimStart s)"

text \<open>
  \<^verbatim>\<open>runNatsCommand(args)\<close> as the \<open>k\<close>-th process of the call, against the server
  \<open>url\<close> (\<^verbatim>\<open>NATS_URL\<close>): \<open>Inr\<close> the text it resolves with, \<open>Inl\<close> the message of the
  \<^verbatim>\<open>Error\<close> it rejects with.
\<close>

definition runNatsCommand :: "spawn \<Rightarrow> nat \<Rightarrow> string \<Rightarrow> string list \<Rightarrow> string + string" where
  "runNatsCommand sp k url args =
     (case sp k ([''-s'', url] @ args) of
        Close code out err \<Rightarrow>
          if code = Some 0 then Inr (if trim out = [] then ''OK'' else trim out)
          else Inl (if err = [] then ''Command failed with code '' @ show_code code else err)
      | SpawnError m \<Rightarrow> Inl m)"

definition publish ::
  "spawn \<Rightarrow> nat \<Rightarrow> string \<Rightarrow> string \<Rightarrow> string \<Rightarrow> (string \<times> string) list option
     \<Rightarrow> string + string" where
  "publish sp k url subject message headers =
     runNatsCommand sp k url
       ([''publish'', subject, message] @
        (case headers of
           None \<Rightarrow> []
         | Some hs \<Rightarrow> concat (map (\<lambda>(key, v). [''-H'', key @ '':'' @ v]) hs)))"

definition show_int :: "int \<Rightarrow> string" where
  "show_int i = (if i < 0 then ''-'' @ show_nat (nat (- i)) else show_nat (nat i))"

fun priority_text :: "priority \<Rightarrow> string" where
  "priority_text Low = ''low''"
| "priority_text Normal = ''normal''"
| "priority_text High = ''high''"

text \<open>A publication on the bus: the subject and the message.\<close>

type_synonym bus_call = "string \<times> string"

text \<open>
  \<^verbatim>\<open>agentBroadcast\<close> of the bus variant: one envelope published on
  \<^verbatim>\<open>agents.broadcast\<close>. \<open>Inl\<close> is the message of the error the function throws (the
  handler answers \<^verbatim>\<open>Error: ...\<close>), \<open>Inr\<close> the text it returns.
\<close>

definition agentBroadcast_bus ::
  "spawn \<Rightarrow> string \<Rightarrow> int \<Rightarrow> string \<Rightarrow> string \<Rightarrow> priority
     \<Rightarrow> (string + string) \<times> bus_call list" where
  "agentBroadcast_bus sp url now agent_id message prio =
     (let payload = ''{'' @ json_string ''from'' @ '':'' @ json_string agent_id @ '',''
                      @ json_string ''msg'' @ '':'' @ json_string message @ '',''
                      @ json_string ''priority'' @ '':'' @ json_string (priority_text prio) @ '',''
                      @ json_string ''ts'' @ '':'' @ show_int now @ ''}''
      in (case publish sp 0 url ''agents.broadcast'' payload None of
            Inl e \<Rightarrow> Inl e
          | Inr ok \<Rightarrow> Inr ''Broadcast sent'',
          [(''agents.broadcast'', payload)]))"

text \<open>
  \<^verbatim>\<open>agentRegister\<close> of the bus variant: the registration is published on
  \<^verbatim>\<open>agents.register\<close> with the time of the call, then the id is returned.
\<close>

definition agentRegister_bus ::
  "spawn \<Rightarrow> string \<Rightarrow> int \<Rightarrow> 8 word list \<Rightarrow> string \<Rightarrow> string
     \<Rightarrow> (string + string) \<times> bus_call list" where
  "agentRegister_bus sp url now bytes agent_name description =
     (let agentId = generateAgentId agent_name bytes;
          payload = ''{'' @ json_string ''id'' @ '':'' @ json_string agentId @ '',''
                      @ json_string ''name'' @ '':'' @ json_string agent_name @ '',''
                      @ json_string ''description'' @ '':'' @ json_string description @ '',''
                      @ json_string ''ts'' @ '':'' @ show_int now @ ''}''
      in (case publish sp 0 url ''agents.register'' payload None of
            Inl e \<Rightarrow> Inl e
          | Inr ok \<Rightarrow>
              Inr (''{'' @ json_string ''agent_id'' @ '':'' @ json_string agentId @ '',''
                     @ json_string ''message'' @ '':''
                     @ json_string ''Registered. Use this agent_id for all subsequent calls.''
                     @ ''}''),
          [(''agents.register'', payload)]))"

section \<open>Directory resolver and history ledger\<close>

text \<open>
  Modelled from the spec: the agent record of the data model (spec 3), the Directory
  Resolver (spec 4.3) and \<^verbatim>\<open>dm_history\<close> of the History Ledger (spec 4.6). The code of the
  ledger-backed variant is not among the sources; only the tests of \<^verbatim>\<open>dm_history\<close> are.
\<close>

record AgentRecord =
  rec_id :: string
  rec_name :: string
  rec_description :: string
  rec_group :: string
  rec_route_target :: "string option"
  rec_last_seen :: int

text \<open>Modelled from the spec: the three outcomes of the Directory Resolver (spec 4.3).\<close>

datatype resolution = Resolved AgentRecord | NotFound | Ambiguous

text \<open>
  Modelled from the spec: the two policies spec 4.3 allows when several candidates carry
  the name; the implementer picks one.
\<close>

datatype ambiguity_policy = MostRecentlySeen | SurfaceAmbiguity

text \<open>Modelled from the spec: the most recently seen of a list of matches, the first of equals.\<close>

fun most_recent :: "AgentRecord \<Rightarrow> AgentRecord list \<Rightarrow> AgentRecord" where
  "most_recent best [] = best"
| "most_recent best (a # as) =
     most_recent (if rec_last_seen best < rec_last_seen a then a else best) as"

text \<open>
  Modelled from the spec: \<^verbatim>\<open>resolve(reference, candidates)\<close> of spec 4.3. Step 1 is the
  exact match on the full id; step 2 reads the reference as a name; step 3 decides on the
  number of matches.
\<close>

definition resolve :: "ambiguity_policy \<Rightarrow> string \<Rightarrow> AgentRecord list \<Rightarrow> resolution" where
  "resolve policy reference candidates =
     (case find (\<lambda>a. rec_id a = reference) candidates of
        Some a \<Rightarrow> Resolved a
      | None \<Rightarrow>
          (case filter (\<lambda>a. rec_name a = reference) candidates of
             [] \<Rightarrow> NotFound
           | [a] \<Rightarrow> Resolved a
           | a # b # rest \<Rightarrow>
               (case policy of
                  MostRecentlySeen \<Rightarrow> Resolved (most_recent a (b # rest))
                | SurfaceAmbiguity \<Rightarrow> Ambiguous)))"

text \<open>Modelled from the spec: the message envelope of spec 3, as the ledger records it.\<close>

record Envelope =
  env_from :: string
  env_to :: "string option"
  env_channel :: "string option"
  env_content :: string
  env_priority :: priority
  env_timestamp :: int

text \<open>
  Modelled from the spec: an envelope of the direct-message traffic between two ids, in
  either direction.
\<close>

definition between :: "string \<Rightarrow> string \<Rightarrow> Envelope \<Rightarrow> bool" where
  "between a b e =
     ((env_from e = a \<and> env_to e = Some b) \<or> (env_from e = b \<and> env_to e = Some a))"

text \<open>
  Modelled from the spec: what \<^verbatim>\<open>dm_history\<close> answers (spec 4.6, 7): the envelopes found, the
  message for an empty history, or that the reference did not resolve.
\<close>

datatype dm_history_result =
  History "Envelope list" | NoHistory string | AgentNotFound | AgentAmbiguous

text \<open>
  Modelled from the spec: \<^verbatim>\<open>dm_history(agent_a, agent_b_reference, limit)\<close> of spec 4.6
  on a ledger, the envelopes in the order they were appended. The reference is resolved
  first; the history is the most recent \<open>limit\<close> envelopes between the two ids, as for
  \<^verbatim>\<open>channel_history\<close>; an empty result is the message
  \<^verbatim>\<open>No DM history with X\<close>, \<open>X\<close> the reference as given (the text of the test).
  A reference that does not resolve is reported as such (spec 7).
\<close>

definition dm_history ::
  "ambiguity_policy \<Rightarrow> AgentRecord list \<Rightarrow> Envelope list \<Rightarrow> string \<Rightarrow> string \<Rightarrow> nat
     \<Rightarrow> dm_history_result" where
  "dm_history policy candidates ledger agent_a agent_b_reference limit =
     (case resolve policy agent_b_reference candidates of
        NotFound \<Rightarrow> AgentNotFound
      | Ambiguous \<Rightarrow> AgentAmbiguous
      | Resolved b \<Rightarrow>
          (let found = filter (between agent_a (rec_id b)) ledger;
               recent = drop (length found - limit) found
           in if recent = [] then NoHistory (''No DM history with '' @ agent_b_reference)
              else History recent))"

section \<open>Example worlds\<close>

text \<open>
  A directory of four presence files at the time \<open>example_now\<close>: bobby and alice were
  seen ten seconds ago and have a pane, carol was seen ten seconds ago and has no
  \<^verbatim>\<open>tmux_pane\<close> member, dave has a pane and was last seen 400 seconds ago.
\<close>

definition example_now :: int where
  "example_now = 1700000400000"

definition file_bobby :: dirent where
  "file_bobby =
     \<lparr> fname = ''claude_agent_bobby.json'', mtimeMs = Some 1700000390000,
       parsed = Some (JObject
         [(''agent_id'', ''bobby-aaaa1111''), (''agent_name'', ''bobby''),
          (''group'', ''research''),
          (''tmux_session'', ''main''), (''tmux_window'', ''1''), (''tmux_pane'', ''0'')]) \<rparr>"

definition file_alice :: dirent where
  "file_alice =
     \<lparr> fname = ''claude_agent_alice.json'', mtimeMs = Some 1700000390000,
       parsed = Some (JObject
         [(''agent_id'', ''alice-bbbb2222''), (''agent_name'', ''alice''),
          (''group'', ''default''),
          (''tmux_session'', ''main''), (''tmux_window'', ''1''), (''tmux_pane'', ''1'')]) \<rparr>"

definition file_carol :: dirent where
  "file_carol =
     \<lparr> fname = ''claude_agent_carol.json'', mtimeMs = Some 1700000390000,
       parsed = Some (JObject
         [(''agent_id'', ''carol-cccc3333''), (''agent_name'', ''carol''),
          (''tmux_session'', ''main''), (''tmux_window'', ''2'')]) \<rparr>"

definition file_dave :: dirent where
  "file_dave =
     \<lparr> fname = ''claude_agent_dave.json'', mtimeMs = Some 1700000000000,
       parsed = Some (JObject
         [(''agent_id'', ''dave-dddd4444''), (''agent_name'', ''dave''),
          (''tmux_session'', ''main''), (''tmux_window'', ''3''), (''tmux_pane'', ''0'')]) \<rparr>"

definition info_bobby :: AgentInfo where
  "info_bobby = \<lparr> info_id = ''bobby-aaaa1111'', info_name = ''bobby'',
                   info_tmux_pane = ''main:1.0'', info_is_stale = False \<rparr>"

definition info_alice :: AgentInfo where
  "info_alice = \<lparr> info_id = ''alice-bbbb2222'', info_name = ''alice'',
                   info_tmux_pane = ''main:1.1'', info_is_stale = False \<rparr>"

definition info_carol :: AgentInfo where
  "info_carol = \<lparr> info_id = ''carol-cccc3333'', info_name = ''carol'',
                   info_tmux_pane = [], info_is_stale = False \<rparr>"

definition info_dave :: AgentInfo where
  "info_dave = \<lparr> info_id = ''dave-dddd4444'', info_name = ''dave'',
                  info_tmux_pane = ''main:3.0'', info_is_stale = True \<rparr>"

text \<open>
  A world where every process exits with code 0, and one where the process started first
  (index 0) fails with exit code 1 and every later one exits with code 0.
\<close>

definition sp_ok :: spawn where
  "sp_ok k argv = Close (Some 0) [] []"

definition sp_first_fails :: spawn where
  "sp_first_fails k argv = (if k = 0 then Close (Some 1) [] [] else Close (Some 0) [] [])"

text \<open>
  Two registered agents and a ledger of three direct messages: alice to bob, bob to alice,
  and alice to a third agent.
\<close>

definition rec_alice :: AgentRecord where
  "rec_alice = \<lparr> rec_id = ''alice-bbbb2222'', rec_name = ''alice'', rec_description = ''writes'',
                  rec_group = ''default'', rec_route_target = Some ''main:1.1'',
                  rec_last_seen = 1700000390000 \<rparr>"

definition rec_bob :: AgentRecord where
  "rec_bob = \<lparr> rec_id = ''bob-12345678'', rec_name = ''bob'', rec_description = ''reviews'',
                rec_group = ''default'', rec_route_target = Some ''main:1.2'',
                rec_last_seen = 1700000380000 \<rparr>"

definition env_hello :: Envelope where
  "env_hello = \<lparr> env_from = ''alice-bbbb2222'', env_to = Some ''bob-12345678'',
                  env_channel = None, env_content = ''hello'', env_priority = Normal,
                  env_timestamp = 1700000391000 \<rparr>"

definition env_reply :: Envelope where
  "env_reply = \<lparr> env_from = ''bob-12345678'', env_to = Some ''alice-bbbb2222'',
                  env_channel = None, env_content = ''hi there'', env_priority = Normal,
                  env_timestamp = 1700000392000 \<rparr>"

definition env_other :: Envelope where
  "env_other = \<lparr> env_from = ''alice-bbbb2222'', env_to = Some ''carol-cccc3333'',
                  env_channel = None, env_content = ''ping'', env_priority = Normal,
                  env_timestamp = 1700000393000 \<rparr>"

section \<open>The loops, as list functions\<close>

lemma collect_agents_eq:
  "collect_agents incl now fs acc = acc @ List.map_filter (agentOfFile incl now) fs"
  by (induction fs arbitrary: acc) (auto simp: List.map_filter_simps split: option.splits)

lemma getActiveAgents_Some:
  "getActiveAgents incl now (Some entries) =
     List.map_filter (agentOfFile incl now) (filter (\<lambda>f. is_agent_file (fname f)) entries)"
  by (simp add: getActiveAgents_def collect_agents_eq)

lemma getActiveAgents_None: "getActiveAgents incl now None = []"
  by (simp add: getActiveAgents_def)

lemma in_getActiveAgents_iff:
  "a \<in> set (getActiveAgents incl now dir) \<longleftrightarrow>
     (\<exists>entries f. dir = Some entries \<and> f \<in> set entries \<and> is_agent_file (fname f)
        \<and> agentOfFile incl now f = Some a)"
  by (cases dir)
     (force simp: getActiveAgents_None getActiveAgents_Some List.map_filter_def image_iff)+

lemma agentOfFile_SomeD:
  "agentOfFile incl now f = Some a \<Longrightarrow>
     \<exists>mt data. mtimeMs f = Some mt \<and> parsed f = Some data \<and> data \<noteq> JNull \<and>
       (incl \<or> now - mt \<le> staleThreshold) \<and>
       info_is_stale a = (staleThreshold < now - mt)"
  by (auto simp: agentOfFile_def Let_def split: option.splits if_splits json.splits)

lemma agentOfFile_listed:
  "mtimeMs f = Some mt \<Longrightarrow> parsed f = Some data \<Longrightarrow> data \<noteq> JNull \<Longrightarrow>
   incl \<or> now - mt \<le> staleThreshold \<Longrightarrow>
     agentOfFile incl now f =
       Some \<lparr> info_id = or_unknown (field data ''agent_id''),
              info_name = or_unknown (field data ''agent_name''),
              info_tmux_pane = pane_address data,
              info_is_stale = (staleThreshold < now - mt) \<rparr>"
  by (auto simp: agentOfFile_def Let_def split: json.splits)



lemma deliver_all_fst:
  "fst (deliver_all sp msg ts k rs cs) =
     rs @ map (\<lambda>(i, t). delivery_line (runSnd sp i (info_tmux_pane t) msg) t)
            (List.enumerate k ts)"
  by (induction ts arbitrary: k rs cs) auto

lemma deliver_all_snd:
  "snd (deliver_all sp msg ts k rs cs) = cs @ map (\<lambda>t. (info_tmux_pane t, msg)) ts"
  by (induction ts arbitrary: k rs cs) auto

lemma broadcast_calls:
  "snd (agentBroadcast sp now dir agent_id message prio) =
     map (\<lambda>t. (info_tmux_pane t, ''['' @ split_first agent_id @ ''] '' @ message))
       (filter (\<lambda>a. info_id a \<noteq> agent_id \<and> info_tmux_pane a \<noteq> [])
          (getActiveAgents False now dir))"
  by (simp add: agentBroadcast_def Let_def split_beta deliver_all_snd)





text \<open>The bus broadcast, down to the process it starts.\<close>

lemma agentBroadcast_bus_eq:
  "agentBroadcast_bus sp url now agent_id message prio =
     (case sp 0 [''-s'', url, ''publish'', ''agents.broadcast'',
                 ''{'' @ json_string ''from'' @ '':'' @ json_string agent_id @ '',''
                   @ json_string ''msg'' @ '':'' @ json_string message @ '',''
                   @ json_string ''priority'' @ '':'' @ json_string (priority_text prio) @ '',''
                   @ json_string ''ts'' @ '':'' @ show_int now @ ''}''] of
        Close code out err \<Rightarrow>
          if code = Some 0 then Inr ''Broadcast sent''
          else Inl (if err = [] then ''Command failed with code '' @ show_code code else err)
      | SpawnError m \<Rightarrow> Inl m,
      [(''agents.broadcast'',
        ''{'' @ json_string ''from'' @ '':'' @ json_string agent_id @ '',''
          @ json_string ''msg'' @ '':'' @ json_string message @ '',''
          @ json_string ''priority'' @ '':'' @ json_string (priority_text prio) @ '',''
          @ json_string ''ts'' @ '':'' @ show_int now @ ''}'')])"
  by (simp add: agentBroadcast_bus_def publish_def runNatsCommand_def Let_def
        split: proc_result.splits)

text \<open>The example directory, read with and without the stale files.\<close>

lemmas example_defs = example_now_def file_bobby_def file_alice_def file_carol_def
  file_dave_def info_bobby_def info_alice_def info_carol_def info_dave_def

lemmas presence_defs = getActiveAgents_def is_agent_file_def startsWith_def endsWith_def
  agentOfFile_def staleThreshold_def pane_address_def

lemma example_active:
  "getActiveAgents False example_now (Some [file_bobby, file_alice, file_carol, file_dave])
     = [info_bobby, info_alice, info_carol]"
  by (simp add: presence_defs example_defs)

lemma example_all:
  "getActiveAgents True example_now (Some [file_bobby, file_alice, file_carol, file_dave])
     = [info_bobby, info_alice, info_carol, info_dave]"
  by (simp add: presence_defs example_defs)

section \<open>Discovery and staleness\<close>

text \<open>
  Claim C2. A call of discover hands its \<^verbatim>\<open>include_stale\<close> argument (false when left
  out) to \<^verbatim>\<open>getActiveAgents\<close> and lists exactly the records that returns, one line each
  after their count. With \<^verbatim>\<open>include_stale = false\<close>, every record returned is marked
  active, is listed as \<^verbatim>\<open>active\<close>, and comes from a presence file whose modification time
  is at most the staleness threshold of 5 minutes (300000 ms) old. With
  \<^verbatim>\<open>include_stale = true\<close>, a readable presence file older than the threshold, which the
  other call leaves out, is returned, its record carries the stale mark, and its line of
  the listing says \<^verbatim>\<open>stale\<close>.
\<close>

theorem discover_staleness:
  "staleThreshold = 300000
   \<and> callTool sp bytes now dir ''agent_discover'' (Some [(''include_stale'', ABoolean include_stale)])
       = (Content (agentDiscover include_stale now dir), [], dir)
   \<and> callTool sp bytes now dir ''agent_discover'' (Some [])
       = (Content (agentDiscover False now dir), [], dir)
   \<and> agentDiscover include_stale now dir
       = (if getActiveAgents include_stale now dir = [] then ''No agents currently registered.''
          else ''Active agents ('' @ show_nat (length (getActiveAgents include_stale now dir))
                 @ ''):'' @ nl
                 @ join nl (map discover_line (getActiveAgents include_stale now dir)))
   \<and> (\<forall>a \<in> set (getActiveAgents False now dir).
        \<not> info_is_stale a
        \<and> discover_line a =
            ''- '' @ info_name a @ '' ('' @ info_id a @ ''): active | pane: ''
              @ (if info_tmux_pane a = [] then ''unknown'' else info_tmux_pane a)
        \<and> (\<exists>entries f mt. dir = Some entries \<and> f \<in> set entries
              \<and> agentOfFile False now f = Some a
              \<and> mtimeMs f = Some mt \<and> now - mt \<le> staleThreshold))
   \<and> (\<forall>entries f mt data.
        dir = Some entries \<and> f \<in> set entries \<and> is_agent_file (fname f)
          \<and> mtimeMs f = Some mt \<and> parsed f = Some data \<and> data \<noteq> JNull
          \<and> staleThreshold < now - mt
        \<longrightarrow> agentOfFile False now f = None
            \<and> (\<exists>a. agentOfFile True now f = Some a
                  \<and> a \<in> set (getActiveAgents True now dir)
                  \<and> info_is_stale a
                  \<and> discover_line a =
                      ''- '' @ info_name a @ '' ('' @ info_id a @ ''): stale | pane: ''
                        @ (if info_tmux_pane a = [] then ''unknown'' else info_tmux_pane a)
                  \<and> agentDiscover True now dir
                      = ''Active agents ('' @ show_nat (length (getActiveAgents True now dir))
                          @ ''):'' @ nl
                          @ join nl (map discover_line (getActiveAgents True now dir))))"
proof (intro conjI ballI allI impI)
  show "staleThreshold = 300000" by (simp add: staleThreshold_def)
next
  show "callTool sp bytes now dir ''agent_discover''
          (Some [(''include_stale'', ABoolean include_stale)])
       = (Content (agentDiscover include_stale now dir), [], dir)"
    by (simp add: callTool_def AgentDiscoverSchema_def)
next
  show "callTool sp bytes now dir ''agent_discover'' (Some [])
       = (Content (agentDiscover False now dir), [], dir)"
    by (simp add: callTool_def AgentDiscoverSchema_def)
next
  show "agentDiscover include_stale now dir
       = (if getActiveAgents include_stale now dir = [] then ''No agents currently registered.''
          else ''Active agents ('' @ show_nat (length (getActiveAgents include_stale now dir))
                 @ ''):'' @ nl
                 @ join nl (map discover_line (getActiveAgents include_stale now dir)))"
    by (simp add: agentDiscover_def Let_def)
next
  fix a assume "a \<in> set (getActiveAgents False now dir)"
  then obtain entries f where
    f: "dir = Some entries" "f \<in> set entries" "agentOfFile False now f = Some a"
    unfolding in_getActiveAgents_iff by blast
  from agentOfFile_SomeD[OF f(3)] obtain mt where
    mt: "mtimeMs f = Some mt" "now - mt \<le> staleThreshold"
        "info_is_stale a = (staleThreshold < now - mt)"
    by auto
  then show fresh: "\<not> info_is_stale a" by simp
  then show "discover_line a =
            ''- '' @ info_name a @ '' ('' @ info_id a @ ''): active | pane: ''
              @ (if info_tmux_pane a = [] then ''unknown'' else info_tmux_pane a)"
    by (simp add: discover_line_def)
  from f mt show "\<exists>entries f mt. dir = Some entries \<and> f \<in> set entries
         \<and> agentOfFile False now f = Some a
         \<and> mtimeMs f = Some mt \<and> now - mt \<le> staleThreshold" by blast
next
  fix entries f mt data
  assume h: "dir = Some entries \<and> f \<in> set entries \<and> is_agent_file (fname f)
          \<and> mtimeMs f = Some mt \<and> parsed f = Some data \<and> data \<noteq> JNull
          \<and> staleThreshold < now - mt"
  then show "agentOfFile False now f = None" by (simp add: agentOfFile_def)
  from h have "agentOfFile True now f =
       Some \<lparr> info_id = or_unknown (field data ''agent_id''),
              info_name = or_unknown (field data ''agent_name''),
              info_tmux_pane = pane_address data,
              info_is_stale = (staleThreshold < now - mt) \<rparr>"
    by (intro agentOfFile_listed) simp_all
  with h obtain a where a: "agentOfFile True now f = Some a" "info_is_stale a"
    by simp
  with h have listed: "a \<in> set (getActiveAgents True now dir)"
    unfolding in_getActiveAgents_iff by blast
  then have "getActiveAgents True now dir \<noteq> []" by auto
  then have listing: "agentDiscover True now dir
                      = ''Active agents ('' @ show_nat (length (getActiveAgents True now dir))
                          @ ''):'' @ nl
                          @ join nl (map discover_line (getActiveAgents True now dir))"
    by (simp add: agentDiscover_def Let_def)
  have line: "discover_line a =
                      ''- '' @ info_name a @ '' ('' @ info_id a @ ''): stale | pane: ''
                        @ (if info_tmux_pane a = [] then ''unknown'' else info_tmux_pane a)"
    using a(2) by (simp add: discover_line_def)
  from a listed line listing
  show "\<exists>a. agentOfFile True now f = Some a
                  \<and> a \<in> set (getActiveAgents True now dir)
                  \<and> info_is_stale a
                  \<and> discover_line a =
                      ''- '' @ info_name a @ '' ('' @ info_id a @ ''): stale | pane: ''
                        @ (if info_tmux_pane a = [] then ''unknown'' else info_tmux_pane a)
                  \<and> agentDiscover True now dir
                      = ''Active agents ('' @ show_nat (length (getActiveAgents True now dir))
                          @ ''):'' @ nl
                          @ join nl (map discover_line (getActiveAgents True now dir))"
    by blast
qed

theorem discover_staleness_witness:
  "callTool sp_ok [0x01, 0x02, 0x03, 0x04] example_now
     (Some [file_bobby, file_alice, file_carol, file_dave]) ''agent_discover'' (Some [])
     = (Content (''Active agents (3):'' @ nl
                   @ ''- bobby (bobby-aaaa1111): active | pane: main:1.0'' @ nl
                   @ ''- alice (alice-bbbb2222): active | pane: main:1.1'' @ nl
                   @ ''- carol (carol-cccc3333): active | pane: unknown''),
        [], Some [file_bobby, file_alice, file_carol, file_dave])
   \<and> callTool sp_ok [0x01, 0x02, 0x03, 0x04] example_now
       (Some [file_bobby, file_alice, file_carol, file_dave]) ''agent_discover''
       (Some [(''include_stale'', ABoolean True)])
     = (Content (''Active agents (4):'' @ nl
                   @ ''- bobby (bobby-aaaa1111): active | pane: main:1.0'' @ nl
                   @ ''- alice (alice-bbbb2222): active | pane: main:1.1'' @ nl
                   @ ''- carol (carol-cccc3333): active | pane: unknown'' @ nl
                   @ ''- dave (dave-dddd4444): stale | pane: main:3.0''),
        [], Some [file_bobby, file_alice, file_carol, file_dave])
   \<and> info_dave \<notin> set (getActiveAgents False example_now
                        (Some [file_bobby, file_alice, file_carol, file_dave]))
   \<and> \<not> info_is_stale info_bobby
   \<and> agentOfFile False example_now file_dave = None
   \<and> agentOfFile True example_now file_dave = Some info_dave
   \<and> info_dave \<in> set (getActiveAgents True example_now
                        (Some [file_bobby, file_alice, file_carol, file_dave]))
   \<and> info_is_stale info_dave
   \<and> discover_line info_dave = ''- dave (dave-dddd4444): stale | pane: main:3.0''"
proof -
  let ?dir = "Some [file_bobby, file_alice, file_carol, file_dave]"
  note without = discover_staleness[of sp_ok "[0x01, 0x02, 0x03, 0x04]" example_now ?dir False]
  note with_stale = discover_staleness[of sp_ok "[0x01, 0x02, 0x03, 0x04]" example_now ?dir True]
  have lines: "discover_line info_bobby = ''- bobby (bobby-aaaa1111): active | pane: main:1.0''"
      "discover_line info_alice = ''- alice (alice-bbbb2222): active | pane: main:1.1''"
      "discover_line info_carol = ''- carol (carol-cccc3333): active | pane: unknown''"
      "discover_line info_dave = ''- dave (dave-dddd4444): stale | pane: main:3.0''"
    by (simp_all add: discover_line_def info_bobby_def info_alice_def info_carol_def
          info_dave_def)
  from without have "callTool sp_ok [0x01, 0x02, 0x03, 0x04] example_now ?dir
                       ''agent_discover'' (Some [])
      = (Content (agentDiscover False example_now ?dir), [], ?dir)
    \<and> agentDiscover False example_now ?dir
       = (if getActiveAgents False example_now ?dir = [] then ''No agents currently registered.''
          else ''Active agents ('' @ show_nat (length (getActiveAgents False example_now ?dir))
                 @ ''):'' @ nl
                 @ join nl (map discover_line (getActiveAgents False example_now ?dir)))"
    by blast
  then have 0: "callTool sp_ok [0x01, 0x02, 0x03, 0x04] example_now ?dir
                       ''agent_discover'' (Some [])
     = (Content (''Active agents (3):'' @ nl
                   @ ''- bobby (bobby-aaaa1111): active | pane: main:1.0'' @ nl
                   @ ''- alice (alice-bbbb2222): active | pane: main:1.1'' @ nl
                   @ ''- carol (carol-cccc3333): active | pane: unknown''),
        [], ?dir)"
    unfolding example_active by (simp add: lines digit_char_def)
  from with_stale have "callTool sp_ok [0x01, 0x02, 0x03, 0x04] example_now ?dir
                       ''agent_discover'' (Some [(''include_stale'', ABoolean True)])
      = (Content (agentDiscover True example_now ?dir), [], ?dir)
    \<and> agentDiscover True example_now ?dir
       = (if getActiveAgents True example_now ?dir = [] then ''No agents currently registered.''
          else ''Active agents ('' @ show_nat (length (getActiveAgents True example_now ?dir))
                 @ ''):'' @ nl
                 @ join nl (map discover_line (getActiveAgents True example_now ?dir)))"
    by blast
  then have 00: "callTool sp_ok [0x01, 0x02, 0x03, 0x04] example_now ?dir
                       ''agent_discover'' (Some [(''include_stale'', ABoolean True)])
     = (Content (''Active agents (4):'' @ nl
                   @ ''- bobby (bobby-aaaa1111): active | pane: main:1.0'' @ nl
                   @ ''- alice (alice-bbbb2222): active | pane: main:1.1'' @ nl
                   @ ''- carol (carol-cccc3333): active | pane: unknown'' @ nl
                   @ ''- dave (dave-dddd4444): stale | pane: main:3.0''),
        [], ?dir)"
    unfolding example_all by (simp add: lines digit_char_def)
  have fresh: "info_bobby \<in> set (getActiveAgents False example_now ?dir)"
    by (simp add: example_active)
  have old: "staleThreshold < example_now - 1700000000000"
    by (simp add: staleThreshold_def example_now_def)
  have dave: "?dir = Some [file_bobby, file_alice, file_carol, file_dave]
      \<and> file_dave \<in> set [file_bobby, file_alice, file_carol, file_dave]
      \<and> is_agent_file (fname file_dave)
      \<and> mtimeMs file_dave = Some 1700000000000
      \<and> parsed file_dave = Some (JObject
           [(''agent_id'', ''dave-dddd4444''), (''agent_name'', ''dave''),
            (''tmux_session'', ''main''), (''tmux_window'', ''3''), (''tmux_pane'', ''0'')])
      \<and> JObject
           [(''agent_id'', ''dave-dddd4444''), (''agent_name'', ''dave''),
            (''tmux_session'', ''main''), (''tmux_window'', ''3''), (''tmux_pane'', ''0'')] \<noteq> JNull
      \<and> staleThreshold < example_now - 1700000000000"
    using old by (simp add: file_dave_def is_agent_file_def startsWith_def endsWith_def)
  from without fresh have 1: "\<not> info_is_stale info_bobby" by blast
  from with_stale dave have 2: "agentOfFile False example_now file_dave = None
      \<and> (\<exists>a. agentOfFile True example_now file_dave = Some a
            \<and> a \<in> set (getActiveAgents True example_now ?dir)
            \<and> info_is_stale a)"
    by blast
  have 3: "agentOfFile True example_now file_dave = Some info_dave"
    by (simp add: presence_defs example_defs)
  have 4: "info_dave \<notin> set (getActiveAgents False example_now ?dir)"
    by (simp add: example_active) (simp add: example_defs)
  from 2 3 have 5: "info_dave \<in> set (getActiveAgents True example_now ?dir)
      \<and> info_is_stale info_dave"
    by auto
  from 0 00 1 2 3 4 5 lines(4) show ?thesis by blast
qed

section \<open>Broadcast: who is addressed\<close>

text \<open>
  Claim C1. The transport calls of a broadcast go, in order, to the panes of the active
  (non-stale) agent list without the sender and without every record that has no pane
  address, each with the text \<^verbatim>\<open>[<sender short-name>] <message>\<close>. When that target list is
  empty the broadcast returns \<^verbatim>\<open>No other agents to broadcast to\<close> and makes no transport
  call.
\<close>

theorem broadcast_targets_and_sentinel:
  "snd (agentBroadcast sp now dir agent_id message prio) =
     map (\<lambda>t. (info_tmux_pane t, ''['' @ split_first agent_id @ ''] '' @ message))
       (filter (\<lambda>a. info_tmux_pane a \<noteq> [])
          (filter (\<lambda>a. info_id a \<noteq> agent_id) (getActiveAgents False now dir)))
   \<and> (filter (\<lambda>a. info_tmux_pane a \<noteq> [])
          (filter (\<lambda>a. info_id a \<noteq> agent_id) (getActiveAgents False now dir)) = []
        \<longrightarrow> agentBroadcast sp now dir agent_id message prio
              = (''No other agents to broadcast to'', []))"
proof -
  let ?targets = "filter (\<lambda>a. info_id a \<noteq> agent_id \<and> info_tmux_pane a \<noteq> [])
                    (getActiveAgents False now dir)"
  have same: "filter (\<lambda>a. info_tmux_pane a \<noteq> [])
          (filter (\<lambda>a. info_id a \<noteq> agent_id) (getActiveAgents False now dir)) = ?targets"
    by (simp add: conj_commute)
  show ?thesis
  proof (cases "?targets = []")
    case True
    then show ?thesis unfolding same by (simp add: agentBroadcast_def Let_def)
  next
    case False
    then show ?thesis unfolding same
      by (simp add: agentBroadcast_def Let_def split_beta deliver_all_snd)
  qed
qed

theorem broadcast_targets_and_sentinel_witness:
  "snd (agentBroadcast sp_first_fails example_now
          (Some [file_bobby, file_alice, file_carol, file_dave])
          ''bobby-aaaa1111'' ''hi'' Normal)
     = [(''main:1.1'', ''[bobby] hi'')]
   \<and> agentBroadcast sp_ok example_now (Some [file_bobby, file_carol, file_dave])
        ''bobby-aaaa1111'' ''hi'' Normal
     = (''No other agents to broadcast to'', [])"
proof -
  have active: "getActiveAgents False example_now (Some [file_bobby, file_carol, file_dave])
                  = [info_bobby, info_carol]"
    by (simp add: presence_defs example_defs)
  have none: "filter (\<lambda>a. info_tmux_pane a \<noteq> [])
          (filter (\<lambda>a. info_id a \<noteq> ''bobby-aaaa1111'')
             (getActiveAgents False example_now (Some [file_bobby, file_carol, file_dave]))) = []"
    unfolding active by (simp add: info_bobby_def info_carol_def)
  have one: "filter (\<lambda>a. info_tmux_pane a \<noteq> [])
          (filter (\<lambda>a. info_id a \<noteq> ''bobby-aaaa1111'')
             (getActiveAgents False example_now
                (Some [file_bobby, file_alice, file_carol, file_dave]))) = [info_alice]"
    unfolding example_active by (simp add: info_bobby_def info_alice_def info_carol_def)
  have "snd (agentBroadcast sp_first_fails example_now
          (Some [file_bobby, file_alice, file_carol, file_dave])
          ''bobby-aaaa1111'' ''hi'' Normal)
     = map (\<lambda>t. (info_tmux_pane t, ''['' @ split_first ''bobby-aaaa1111'' @ ''] '' @ ''hi''))
         [info_alice]"
    using broadcast_targets_and_sentinel[of sp_first_fails example_now
            "Some [file_bobby, file_alice, file_carol, file_dave]" "''bobby-aaaa1111''" "''hi''"
            Normal]
    unfolding one by blast
  then have first: "snd (agentBroadcast sp_first_fails example_now
          (Some [file_bobby, file_alice, file_carol, file_dave])
          ''bobby-aaaa1111'' ''hi'' Normal) = [(''main:1.1'', ''[bobby] hi'')]"
    by (simp add: split_first_def info_alice_def)
  have second: "agentBroadcast sp_ok example_now (Some [file_bobby, file_carol, file_dave])
        ''bobby-aaaa1111'' ''hi'' Normal = (''No other agents to broadcast to'', [])"
    using broadcast_targets_and_sentinel[of sp_ok example_now
            "Some [file_bobby, file_carol, file_dave]" "''bobby-aaaa1111''" "''hi''" Normal]
      none
    by blast
  from first second show ?thesis by blast
qed

section \<open>Records without a pane address\<close>



section \<open>Broadcast: what is reported\<close>

text \<open>
  Claim C7, as amended. In the direct variant, a broadcast with a non-empty target list
  calls the transport once for every target, whatever the earlier calls did, and returns
  the number of targets followed by one line per target, in order: the check mark and the
  name when the delivery succeeded, the cross mark, the name and the error when it failed.
  In the bus variant a broadcast is one publication on \<^verbatim>\<open>agents.broadcast\<close> of the
  envelope \<^verbatim>\<open>{from, msg, priority, ts}\<close>, made by one \<^verbatim>\<open>nats publish\<close> process; it
  returns the text \<^verbatim>\<open>Broadcast sent\<close> when that process exits with code 0, and fails with
  the error of the publication otherwise: what the process wrote to stderr, its exit code
  when it wrote nothing, or the error of starting it.
\<close>

theorem broadcast_reports_every_target:
  assumes targets: "targets = filter (\<lambda>a. info_id a \<noteq> agent_id \<and> info_tmux_pane a \<noteq> [])
                                (getActiveAgents False now dir)"
    and nonempty: "targets \<noteq> []"
    and msg: "formattedMsg = ''['' @ split_first agent_id @ ''] '' @ message"
    and payload: "payload =
          ''{'' @ json_string ''from'' @ '':'' @ json_string agent_id @ '',''
            @ json_string ''msg'' @ '':'' @ json_string message @ '',''
            @ json_string ''priority'' @ '':'' @ json_string (priority_text prio) @ '',''
            @ json_string ''ts'' @ '':'' @ show_int now' @ ''}''"
  shows "snd (agentBroadcast sp now dir agent_id message prio)
           = map (\<lambda>t. (info_tmux_pane t, formattedMsg)) targets
     \<and> (\<exists>results.
           fst (agentBroadcast sp now dir agent_id message prio)
             = ''Broadcast sent to '' @ show_nat (length targets) @ '' agent(s):'' @ nl
                 @ join nl results
           \<and> length results = length targets
           \<and> (\<forall>i < length targets.
                 results ! i =
                   (case runSnd sp i (info_tmux_pane (targets ! i)) formattedMsg of
                      None \<Rightarrow> check_mark @ '' '' @ info_name (targets ! i)
                    | Some m \<Rightarrow> cross_mark @ '' '' @ info_name (targets ! i)
                                 @ '': Error: '' @ m)))
     \<and> length (snd (agentBroadcast_bus sp' url now' agent_id message prio)) = 1
     \<and> (fst (agentBroadcast_bus sp' url now' agent_id message prio) = Inr ''Broadcast sent''
          \<or> (\<exists>e. fst (agentBroadcast_bus sp' url now' agent_id message prio) = Inl e))
     \<and> snd (agentBroadcast_bus sp' url now' agent_id message prio)
          = [(''agents.broadcast'', payload)]
     \<and> fst (agentBroadcast_bus sp' url now' agent_id message prio)
          = (case sp' 0 [''-s'', url, ''publish'', ''agents.broadcast'', payload] of
               Close code out err \<Rightarrow>
                 if code = Some 0 then Inr ''Broadcast sent''
                 else Inl (if err = [] then ''Command failed with code '' @ show_code code
                           else err)
             | SpawnError m \<Rightarrow> Inl m)"
proof -
  let ?results = "map (\<lambda>(i, t). delivery_line (runSnd sp i (info_tmux_pane t) formattedMsg) t)
                    (List.enumerate 0 targets)"
  have calls: "snd (agentBroadcast sp now dir agent_id message prio)
                 = map (\<lambda>t. (info_tmux_pane t, formattedMsg)) targets"
    by (simp add: broadcast_calls targets msg)
  have body: "fst (agentBroadcast sp now dir agent_id message prio)
             = ''Broadcast sent to '' @ show_nat (length targets) @ '' agent(s):'' @ nl
                 @ join nl ?results"
    using nonempty unfolding targets msg
    by (simp add: agentBroadcast_def Let_def split_beta deliver_all_fst)
  have len: "length ?results = length targets" by simp
  have each: "\<forall>i < length targets.
                 ?results ! i =
                   (case runSnd sp i (info_tmux_pane (targets ! i)) formattedMsg of
                      None \<Rightarrow> check_mark @ '' '' @ info_name (targets ! i)
                    | Some m \<Rightarrow> cross_mark @ '' '' @ info_name (targets ! i)
                                 @ '': Error: '' @ m)"
    by (simp add: nth_enumerate_eq delivery_line_def error_text_def split: option.splits)
  have bus_calls: "length (snd (agentBroadcast_bus sp' url now' agent_id message prio)) = 1"
    by (simp add: agentBroadcast_bus_def Let_def)
  have bus_text:
    "fst (agentBroadcast_bus sp' url now' agent_id message prio) = Inr ''Broadcast sent''
       \<or> (\<exists>e. fst (agentBroadcast_bus sp' url now' agent_id message prio) = Inl e)"
    by (simp add: agentBroadcast_bus_def Let_def split: sum.splits)
  have bus_published: "snd (agentBroadcast_bus sp' url now' agent_id message prio)
          = [(''agents.broadcast'', payload)]"
    unfolding agentBroadcast_bus_eq payload by simp
  have bus_answer: "fst (agentBroadcast_bus sp' url now' agent_id message prio)
          = (case sp' 0 [''-s'', url, ''publish'', ''agents.broadcast'', payload] of
               Close code out err \<Rightarrow>
                 if code = Some 0 then Inr ''Broadcast sent''
                 else Inl (if err = [] then ''Command failed with code '' @ show_code code
                           else err)
             | SpawnError m \<Rightarrow> Inl m)"
    unfolding agentBroadcast_bus_eq payload by simp
  from body len each have "\<exists>results.
           fst (agentBroadcast sp now dir agent_id message prio)
             = ''Broadcast sent to '' @ show_nat (length targets) @ '' agent(s):'' @ nl
                 @ join nl results
           \<and> length results = length targets
           \<and> (\<forall>i < length targets.
                 results ! i =
                   (case runSnd sp i (info_tmux_pane (targets ! i)) formattedMsg of
                      None \<Rightarrow> check_mark @ '' '' @ info_name (targets ! i)
                    | Some m \<Rightarrow> cross_mark @ '' '' @ info_name (targets ! i)
                                 @ '': Error: '' @ m))"
    by blast
  with calls bus_calls bus_text bus_published bus_answer show ?thesis by blast
qed

theorem broadcast_reports_every_target_witness:
  "agentBroadcast sp_first_fails example_now
     (Some [file_bobby, file_alice, file_carol, file_dave]) ''zed-eeee5555'' ''hi'' Normal
     = (''Broadcast sent to 2 agent(s):'' @ nl
          @ cross_mark @ '' bobby: Error: snd failed with code 1'' @ nl
          @ check_mark @ '' alice'',
        [(''main:1.0'', ''[zed] hi''), (''main:1.1'', ''[zed] hi'')])
   \<and> length (snd (agentBroadcast_bus sp_ok ''nats://localhost:4222'' example_now
                    ''zed-eeee5555'' ''hi'' Normal)) = 1
   \<and> agentBroadcast_bus sp_ok ''nats://localhost:4222'' example_now
        ''zed-eeee5555'' ''hi'' Normal
     = (Inr ''Broadcast sent'',
        [(''agents.broadcast'',
          ''{'' @ [CHR 0x22] @ ''from'' @ [CHR 0x22] @ '':''
            @ [CHR 0x22] @ ''zed-eeee5555'' @ [CHR 0x22] @ '',''
            @ [CHR 0x22] @ ''msg'' @ [CHR 0x22] @ '':'' @ [CHR 0x22] @ ''hi'' @ [CHR 0x22] @ '',''
            @ [CHR 0x22] @ ''priority'' @ [CHR 0x22] @ '':''
            @ [CHR 0x22] @ ''normal'' @ [CHR 0x22] @ '',''
            @ [CHR 0x22] @ ''ts'' @ [CHR 0x22] @ '':1700000400000}'')])
   \<and> fst (agentBroadcast_bus sp_first_fails ''nats://localhost:4222'' example_now
            ''zed-eeee5555'' ''hi'' Normal)
     = Inl ''Command failed with code 1''"
proof -
  let ?dir = "Some [file_bobby, file_alice, file_carol, file_dave]"
  let ?b = "agentBroadcast sp_first_fails example_now ?dir ''zed-eeee5555'' ''hi'' Normal"
  let ?payload = "''{'' @ [CHR 0x22] @ ''from'' @ [CHR 0x22] @ '':''
            @ [CHR 0x22] @ ''zed-eeee5555'' @ [CHR 0x22] @ '',''
            @ [CHR 0x22] @ ''msg'' @ [CHR 0x22] @ '':'' @ [CHR 0x22] @ ''hi'' @ [CHR 0x22] @ '',''
            @ [CHR 0x22] @ ''priority'' @ [CHR 0x22] @ '':''
            @ [CHR 0x22] @ ''normal'' @ [CHR 0x22] @ '',''
            @ [CHR 0x22] @ ''ts'' @ [CHR 0x22] @ '':1700000400000}''"
  have targets: "[info_bobby, info_alice]
      = filter (\<lambda>a. info_id a \<noteq> ''zed-eeee5555'' \<and> info_tmux_pane a \<noteq> [])
          (getActiveAgents False example_now ?dir)"
    unfolding example_active by (simp add: info_bobby_def info_alice_def info_carol_def)
  have nonempty: "[info_bobby, info_alice] \<noteq> []" by simp
  have msg: "''[zed] hi'' = ''['' @ split_first ''zed-eeee5555'' @ ''] '' @ ''hi''"
    by (simp add: split_first_def)
  have payload: "?payload =
          ''{'' @ json_string ''from'' @ '':'' @ json_string ''zed-eeee5555'' @ '',''
            @ json_string ''msg'' @ '':'' @ json_string ''hi'' @ '',''
            @ json_string ''priority'' @ '':'' @ json_string (priority_text Normal) @ '',''
            @ json_string ''ts'' @ '':'' @ show_int example_now @ ''}''"
    by (simp add: json_string_def json_escape_def show_int_def example_now_def digit_char_def)
  note inst = broadcast_reports_every_target[OF targets nonempty msg payload,
      of sp_first_fails sp_ok "''nats://localhost:4222''"]
  note inst_fail = broadcast_reports_every_target[OF targets nonempty msg payload,
      of sp_first_fails sp_first_fails "''nats://localhost:4222''"]
  from inst obtain results where
    body: "fst ?b = ''Broadcast sent to '' @ show_nat (length [info_bobby, info_alice])
                     @ '' agent(s):'' @ nl @ join nl results"
    and len: "length results = length [info_bobby, info_alice]"
    and each: "\<forall>i < length [info_bobby, info_alice].
                 results ! i =
                   (case runSnd sp_first_fails i (info_tmux_pane ([info_bobby, info_alice] ! i))
                           ''[zed] hi'' of
                      None \<Rightarrow> check_mark @ '' '' @ info_name ([info_bobby, info_alice] ! i)
                    | Some m \<Rightarrow> cross_mark @ '' '' @ info_name ([info_bobby, info_alice] ! i)
                                 @ '': Error: '' @ m)"
    by blast
  from each have r0: "results ! 0 = cross_mark @ '' bobby: Error: snd failed with code 1''"
    by (simp add: runSnd_def sp_first_fails_def info_bobby_def digit_char_def)
  from each have r1: "results ! 1 = check_mark @ '' alice''"
    by (simp add: runSnd_def sp_first_fails_def info_alice_def)
  from len obtain x y where xy: "results = [x, y]"
    by (cases results; cases "tl results") auto
  with r0 r1 have res: "results = [cross_mark @ '' bobby: Error: snd failed with code 1'',
                                  check_mark @ '' alice'']"
    by simp
  have 1: "fst ?b = ''Broadcast sent to 2 agent(s):'' @ nl
          @ cross_mark @ '' bobby: Error: snd failed with code 1'' @ nl
          @ check_mark @ '' alice''"
    unfolding body res by (simp add: digit_char_def)
  from inst have 2: "snd ?b = [(''main:1.0'', ''[zed] hi''), (''main:1.1'', ''[zed] hi'')]"
    by (simp add: info_bobby_def info_alice_def)
  from inst have 3: "length (snd (agentBroadcast_bus sp_ok ''nats://localhost:4222'' example_now
                    ''zed-eeee5555'' ''hi'' Normal)) = 1"
    by blast
  from inst have 4: "snd (agentBroadcast_bus sp_ok ''nats://localhost:4222'' example_now
                    ''zed-eeee5555'' ''hi'' Normal) = [(''agents.broadcast'', ?payload)]"
    by blast
  from inst have "fst (agentBroadcast_bus sp_ok ''nats://localhost:4222'' example_now
                    ''zed-eeee5555'' ''hi'' Normal)
          = (case sp_ok 0 [''-s'', ''nats://localhost:4222'', ''publish'', ''agents.broadcast'',
                           ?payload] of
               Close code out err \<Rightarrow>
                 if code = Some 0 then Inr ''Broadcast sent''
                 else Inl (if err = [] then ''Command failed with code '' @ show_code code
                           else err)
             | SpawnError m \<Rightarrow> Inl m)"
    by blast
  then have 5: "fst (agentBroadcast_bus sp_ok ''nats://localhost:4222'' example_now
                    ''zed-eeee5555'' ''hi'' Normal) = Inr ''Broadcast sent''"
    by (simp add: sp_ok_def)
  from inst_fail have "fst (agentBroadcast_bus sp_first_fails ''nats://localhost:4222''
                    example_now ''zed-eeee5555'' ''hi'' Normal)
          = (case sp_first_fails 0 [''-s'', ''nats://localhost:4222'', ''publish'',
                                    ''agents.broadcast'', ?payload] of
               Close code out err \<Rightarrow>
                 if code = Some 0 then Inr ''Broadcast sent''
                 else Inl (if err = [] then ''Command failed with code '' @ show_code code
                           else err)
             | SpawnError m \<Rightarrow> Inl m)"
    by blast
  then have 6: "fst (agentBroadcast_bus sp_first_fails ''nats://localhost:4222'' example_now
            ''zed-eeee5555'' ''hi'' Normal) = Inl ''Command failed with code 1''"
    by (simp add: sp_first_fails_def digit_char_def)
  from 1 2 have direct: "?b = (''Broadcast sent to 2 agent(s):'' @ nl
          @ cross_mark @ '' bobby: Error: snd failed with code 1'' @ nl
          @ check_mark @ '' alice'',
        [(''main:1.0'', ''[zed] hi''), (''main:1.1'', ''[zed] hi'')])"
    by (intro prod_eqI) simp_all
  from 4 5 have bus: "agentBroadcast_bus sp_ok ''nats://localhost:4222'' example_now
        ''zed-eeee5555'' ''hi'' Normal = (Inr ''Broadcast sent'', [(''agents.broadcast'', ?payload)])"
    by (intro prod_eqI) simp_all
  from direct 3 bus 6 show ?thesis by blast
qed

text \<open>
  The claim as stated fails for the bus variant: asked to broadcast the same message for
  the same sender, the direct variant answers with the count and a line per target, the
  bus variant with the bare text \<^verbatim>\<open>Broadcast sent\<close>, which names no target and holds no
  digit, so no count.
\<close>

theorem bus_broadcast_reports_no_target_counterexample:
  "fst (agentBroadcast_bus sp_ok ''nats://localhost:4222'' example_now
          ''zed-eeee5555'' ''hi'' Normal) = Inr ''Broadcast sent''
   \<and> set ''Broadcast sent'' \<inter> set ''0123456789'' = {}
   \<and> fst (agentBroadcast sp_ok example_now (Some [file_bobby, file_alice])
            ''zed-eeee5555'' ''hi'' Normal)
       = ''Broadcast sent to 2 agent(s):'' @ nl @ check_mark @ '' bobby'' @ nl
           @ check_mark @ '' alice''"
proof -
  have bus: "fst (agentBroadcast_bus sp_ok ''nats://localhost:4222'' example_now
          ''zed-eeee5555'' ''hi'' Normal) = Inr ''Broadcast sent''"
    by (simp add: agentBroadcast_bus_def publish_def runNatsCommand_def sp_ok_def Let_def)
  have digits: "set ''Broadcast sent'' \<inter> set ''0123456789'' = {}"
    by simp
  have active: "getActiveAgents False example_now (Some [file_bobby, file_alice])
                  = [info_bobby, info_alice]"
    by (simp add: presence_defs example_defs)
  have direct: "fst (agentBroadcast sp_ok example_now (Some [file_bobby, file_alice])
            ''zed-eeee5555'' ''hi'' Normal)
       = ''Broadcast sent to 2 agent(s):'' @ nl @ check_mark @ '' bobby'' @ nl
           @ check_mark @ '' alice''"
    by (simp add: agentBroadcast_def active Let_def info_bobby_def info_alice_def
          split_first_def delivery_line_def runSnd_def sp_ok_def digit_char_def)
  from bus digits direct show ?thesis by blast
qed

section \<open>History of direct messages\<close>

text \<open>
  Claim C9. \<^verbatim>\<open>dm_history(agent_a, agent_b_reference, limit)\<close> resolves the reference with
  the Directory Resolver first: a reference that is a full id, or the name of exactly one
  candidate, resolves to that candidate, and one that matches nobody is reported as not
  found. With the reference resolved to \<open>b\<close>, what it returns is the direct-message
  traffic between \<open>agent_a\<close> and the id of \<open>b\<close>, in both directions: the most recent
  \<open>limit\<close> of those envelopes, all of them when they are at most \<open>limit\<close>. When the two
  have no prior messages it returns the message \<^verbatim>\<open>No DM history with X\<close>; it never
  returns an empty list.
\<close>

theorem dm_history_resolves_then_reports:
  "(\<forall>b. find (\<lambda>a. rec_id a = agent_b_reference) candidates = Some b
        \<longrightarrow> resolve policy agent_b_reference candidates = Resolved b)
   \<and> (\<forall>b. find (\<lambda>a. rec_id a = agent_b_reference) candidates = None
          \<and> filter (\<lambda>a. rec_name a = agent_b_reference) candidates = [b]
        \<longrightarrow> resolve policy agent_b_reference candidates = Resolved b)
   \<and> (resolve policy agent_b_reference candidates = NotFound
        \<longrightarrow> dm_history policy candidates ledger agent_a agent_b_reference limit = AgentNotFound)
   \<and> (\<forall>b. resolve policy agent_b_reference candidates = Resolved b \<longrightarrow>
          ((\<forall>e \<in> set ledger. \<not> between agent_a (rec_id b) e)
             \<longrightarrow> dm_history policy candidates ledger agent_a agent_b_reference limit
                   = NoHistory (''No DM history with '' @ agent_b_reference))
          \<and> (filter (between agent_a (rec_id b)) ledger \<noteq> []
               \<and> length (filter (between agent_a (rec_id b)) ledger) \<le> limit
             \<longrightarrow> dm_history policy candidates ledger agent_a agent_b_reference limit
                   = History (filter (between agent_a (rec_id b)) ledger))
          \<and> (\<forall>msgs. dm_history policy candidates ledger agent_a agent_b_reference limit
                       = History msgs
             \<longrightarrow> length msgs \<le> limit
                 \<and> (\<exists>older. filter (between agent_a (rec_id b)) ledger = older @ msgs)
                 \<and> (\<forall>e \<in> set msgs. e \<in> set ledger
                       \<and> ((env_from e = agent_a \<and> env_to e = Some (rec_id b))
                            \<or> (env_from e = rec_id b \<and> env_to e = Some agent_a)))))
   \<and> dm_history policy candidates ledger agent_a agent_b_reference limit \<noteq> History []"
proof (intro conjI allI impI)
  fix b assume "find (\<lambda>a. rec_id a = agent_b_reference) candidates = Some b"
  then show "resolve policy agent_b_reference candidates = Resolved b"
    by (simp add: resolve_def)
next
  fix b assume "find (\<lambda>a. rec_id a = agent_b_reference) candidates = None
          \<and> filter (\<lambda>a. rec_name a = agent_b_reference) candidates = [b]"
  then show "resolve policy agent_b_reference candidates = Resolved b"
    by (simp add: resolve_def)
next
  assume "resolve policy agent_b_reference candidates = NotFound"
  then show "dm_history policy candidates ledger agent_a agent_b_reference limit = AgentNotFound"
    by (simp add: dm_history_def)
next
  fix b assume r: "resolve policy agent_b_reference candidates = Resolved b"
    and none: "\<forall>e \<in> set ledger. \<not> between agent_a (rec_id b) e"
  from none have "filter (between agent_a (rec_id b)) ledger = []"
    by (simp add: filter_empty_conv)
  with r show "dm_history policy candidates ledger agent_a agent_b_reference limit
                   = NoHistory (''No DM history with '' @ agent_b_reference)"
    by (simp add: dm_history_def)
next
  fix b assume r: "resolve policy agent_b_reference candidates = Resolved b"
    and some: "filter (between agent_a (rec_id b)) ledger \<noteq> []
               \<and> length (filter (between agent_a (rec_id b)) ledger) \<le> limit"
  then show "dm_history policy candidates ledger agent_a agent_b_reference limit
                   = History (filter (between agent_a (rec_id b)) ledger)"
    by (simp add: dm_history_def Let_def)
next
  fix b msgs assume r: "resolve policy agent_b_reference candidates = Resolved b"
    and h: "dm_history policy candidates ledger agent_a agent_b_reference limit = History msgs"
  let ?found = "filter (between agent_a (rec_id b)) ledger"
  from r h have msgs: "msgs = drop (length ?found - limit) ?found"
    by (simp add: dm_history_def Let_def split: if_splits)
  show "length msgs \<le> limit" unfolding msgs by simp
  have "?found = take (length ?found - limit) ?found @ msgs"
    unfolding msgs by simp
  then show "\<exists>older. ?found = older @ msgs" by blast
  show "\<forall>e \<in> set msgs. e \<in> set ledger
                       \<and> ((env_from e = agent_a \<and> env_to e = Some (rec_id b))
                            \<or> (env_from e = rec_id b \<and> env_to e = Some agent_a))"
  proof
    fix e assume "e \<in> set msgs"
    then have "e \<in> set ?found" unfolding msgs by (rule in_set_dropD)
    then show "e \<in> set ledger
                       \<and> ((env_from e = agent_a \<and> env_to e = Some (rec_id b))
                            \<or> (env_from e = rec_id b \<and> env_to e = Some agent_a))"
      by (simp add: between_def)
  qed
next
  show "dm_history policy candidates ledger agent_a agent_b_reference limit \<noteq> History []"
    by (simp add: dm_history_def Let_def split: resolution.splits)
qed

theorem dm_history_resolves_then_reports_witness:
  "resolve SurfaceAmbiguity ''bob'' [rec_alice, rec_bob] = Resolved rec_bob
   \<and> dm_history SurfaceAmbiguity [rec_alice, rec_bob] [env_hello, env_reply, env_other]
        ''alice-bbbb2222'' ''bob'' 50 = History [env_hello, env_reply]
   \<and> dm_history SurfaceAmbiguity [rec_alice, rec_bob] [env_other]
        ''alice-bbbb2222'' ''bob'' 50 = NoHistory ''No DM history with bob''
   \<and> dm_history SurfaceAmbiguity [rec_alice, rec_bob] [env_other]
        ''alice-bbbb2222'' ''zed'' 50 = AgentNotFound"
proof -
  let ?cands = "[rec_alice, rec_bob]"
  have no_id: "find (\<lambda>a. rec_id a = ''bob'') ?cands = None"
    by (simp add: rec_alice_def rec_bob_def)
  have one_name: "filter (\<lambda>a. rec_name a = ''bob'') ?cands = [rec_bob]"
    by (simp add: rec_alice_def rec_bob_def)
  note full = dm_history_resolves_then_reports[of "''bob''" ?cands SurfaceAmbiguity
      "[env_hello, env_reply, env_other]" "''alice-bbbb2222''" 50]
  note empty = dm_history_resolves_then_reports[of "''bob''" ?cands SurfaceAmbiguity
      "[env_other]" "''alice-bbbb2222''" 50]
  note unknown = dm_history_resolves_then_reports[of "''zed''" ?cands SurfaceAmbiguity
      "[env_other]" "''alice-bbbb2222''" 50]
  from full no_id one_name have r: "resolve SurfaceAmbiguity ''bob'' ?cands = Resolved rec_bob"
    by blast
  have found: "filter (between ''alice-bbbb2222'' (rec_id rec_bob))
                 [env_hello, env_reply, env_other] = [env_hello, env_reply]"
    by (simp add: between_def rec_bob_def env_hello_def env_reply_def env_other_def)
  have "filter (between ''alice-bbbb2222'' (rec_id rec_bob)) [env_hello, env_reply, env_other]
          \<noteq> []
        \<and> length (filter (between ''alice-bbbb2222'' (rec_id rec_bob))
                    [env_hello, env_reply, env_other]) \<le> 50"
    unfolding found by simp
  with full r have "dm_history SurfaceAmbiguity ?cands [env_hello, env_reply, env_other]
        ''alice-bbbb2222'' ''bob'' 50
      = History (filter (between ''alice-bbbb2222'' (rec_id rec_bob))
                   [env_hello, env_reply, env_other])"
    by blast
  then have 1: "dm_history SurfaceAmbiguity ?cands [env_hello, env_reply, env_other]
        ''alice-bbbb2222'' ''bob'' 50 = History [env_hello, env_reply]"
    unfolding found .
  have "\<forall>e \<in> set [env_other]. \<not> between ''alice-bbbb2222'' (rec_id rec_bob) e"
    by (simp add: between_def rec_bob_def env_other_def)
  with empty r have "dm_history SurfaceAmbiguity ?cands [env_other]
        ''alice-bbbb2222'' ''bob'' 50 = NoHistory (''No DM history with '' @ ''bob'')"
    by blast
  then have 2: "dm_history SurfaceAmbiguity ?cands [env_other]
        ''alice-bbbb2222'' ''bob'' 50 = NoHistory ''No DM history with bob''"
    by simp
  have "resolve SurfaceAmbiguity ''zed'' ?cands = NotFound"
    by (simp add: resolve_def rec_alice_def rec_bob_def)
  with unknown have 3: "dm_history SurfaceAmbiguity ?cands [env_other]
        ''alice-bbbb2222'' ''zed'' 50 = AgentNotFound"
    by blast
  from r 1 2 3 show ?thesis by blast
qed

section \<open>Where the direct variant departs from the specification\<close>

text \<open>
  Claim C3. The specification resolves the \<^verbatim>\<open>to\<close> of a direct message by full id first
  and by name second. \<^verbatim>\<open>agentDM\<close> only looks for a record whose id is \<^verbatim>\<open>to\<close>: with bobby
  the one agent of that name, a message to \<^verbatim>\<open>bobby\<close> is answered
  \<^verbatim>\<open>Agent bobby not found\<close> and nothing is delivered, while a message to his full id is.
\<close>

theorem dm_to_short_name_is_not_found:
  "filter (\<lambda>a. info_name a = ''bobby'')
     (getActiveAgents False example_now (Some [file_bobby, file_alice])) = [info_bobby]
   \<and> agentDM sp_ok example_now (Some [file_bobby, file_alice])
        ''alice-bbbb2222'' ''bobby'' ''hi''
       = (''Agent bobby not found'', [])
   \<and> agentDM sp_ok example_now (Some [file_bobby, file_alice])
        ''alice-bbbb2222'' ''bobby-aaaa1111'' ''hi''
       = (''DM sent to bobby'', [(''main:1.0'', ''[DM from alice] hi'')])"
proof -
  have active: "getActiveAgents False example_now (Some [file_bobby, file_alice])
                  = [info_bobby, info_alice]"
    by (simp add: presence_defs example_defs)
  show ?thesis
    unfolding agentDM_def active
    by (simp add: Let_def info_bobby_def info_alice_def split_first_def runSnd_def sp_ok_def)
qed

text \<open>
  The short name of a sender is its id up to the first hyphen. That is the registered
  name when the name has no hyphen of its own.
\<close>

lemma split_first_generateAgentId:
  "CHR ''-'' \<notin> set agent_name \<Longrightarrow> split_first (generateAgentId agent_name bytes) = agent_name"
  by (induction agent_name) (auto simp: split_first_def generateAgentId_def)

text \<open>
  Claim C4. The claim takes the short name to be all of the id before the generated
  suffix, hyphens included. For the name \<^verbatim>\<open>my-agent\<close> the id is \<^verbatim>\<open>my-agent-a1b2c3d4\<close>, and
  both the broadcast and the direct message are signed \<^verbatim>\<open>my\<close>.
\<close>

theorem sender_name_stops_at_first_hyphen:
  "generateAgentId ''my-agent'' [0xa1, 0xb2, 0xc3, 0xd4] = ''my-agent-a1b2c3d4''
   \<and> snd (agentBroadcast sp_ok example_now (Some [file_bobby])
            ''my-agent-a1b2c3d4'' ''hi'' Normal)
       = [(''main:1.0'', ''[my] hi'')]
   \<and> snd (agentDM sp_ok example_now (Some [file_bobby])
            ''my-agent-a1b2c3d4'' ''bobby-aaaa1111'' ''hi'')
       = [(''main:1.0'', ''[DM from my] hi'')]"
proof -
  have active: "getActiveAgents False example_now (Some [file_bobby]) = [info_bobby]"
    by (simp add: presence_defs example_defs)
  have 1: "generateAgentId ''my-agent'' [0xa1, 0xb2, 0xc3, 0xd4] = ''my-agent-a1b2c3d4''"
    by (simp add: generateAgentId_def to_hex_def hex_byte_def hex_digit_def)
  have 2: "snd (agentBroadcast sp_ok example_now (Some [file_bobby])
            ''my-agent-a1b2c3d4'' ''hi'' Normal) = [(''main:1.0'', ''[my] hi'')]"
    unfolding broadcast_calls active by (simp add: info_bobby_def split_first_def)
  have 3: "snd (agentDM sp_ok example_now (Some [file_bobby])
            ''my-agent-a1b2c3d4'' ''bobby-aaaa1111'' ''hi'') = [(''main:1.0'', ''[DM from my] hi'')]"
    unfolding agentDM_def active by (simp add: Let_def info_bobby_def split_first_def)
  from 1 2 3 show ?thesis by blast
qed

text \<open>No tool of the direct variant changes the directory of presence files.\<close>

lemma callTool_leaves_directory:
  "snd (snd (callTool sp bytes now dir tool args)) = dir"
  by (simp add: callTool_def split_beta split: option.splits)

text \<open>
  The bus variant does announce a registration: one publication on \<^verbatim>\<open>agents.register\<close>
  that carries the id, the name, the description and the time of the call.
\<close>

lemma agentRegister_bus_publishes:
  "snd (agentRegister_bus sp url now bytes agent_name description)
     = [(''agents.register'',
         ''{'' @ json_string ''id'' @ '':'' @ json_string (generateAgentId agent_name bytes) @ '',''
           @ json_string ''name'' @ '':'' @ json_string agent_name @ '',''
           @ json_string ''description'' @ '':'' @ json_string description @ '',''
           @ json_string ''ts'' @ '':'' @ show_int now @ ''}'')]"
  by (simp add: agentRegister_bus_def Let_def)

text \<open>
  Claim C5. Registration is claimed to persist a record that discovery then shows. In the
  direct variant \<^verbatim>\<open>agent_register\<close> answers with a fresh id and leaves the directory as it
  was: on an empty directory, the discovery that follows finds no agent.
\<close>

theorem register_then_discover_finds_nobody:
  "fst (callTool sp_ok [0xa1, 0xb2, 0xc3, 0xd4] example_now (Some []) ''agent_register''
          (Some [(''name'', AString ''bobby''), (''description'', AString ''helper'')]))
     = Content (''{'' @ [CHR 0x22] @ ''agent_id'' @ [CHR 0x22] @ '':''
                  @ [CHR 0x22] @ ''bobby-a1b2c3d4'' @ [CHR 0x22] @ '',''
                  @ [CHR 0x22] @ ''message'' @ [CHR 0x22] @ '':''
                  @ [CHR 0x22] @ ''Registered. Use this agent_id for all subsequent calls.''
                  @ [CHR 0x22] @ ''}'')
   \<and> snd (snd (callTool sp_ok [0xa1, 0xb2, 0xc3, 0xd4] example_now (Some []) ''agent_register''
          (Some [(''name'', AString ''bobby''), (''description'', AString ''helper'')])))
     = Some []
   \<and> fst (callTool sp_ok [0x01, 0x02, 0x03, 0x04] (example_now + 1000)
            (snd (snd (callTool sp_ok [0xa1, 0xb2, 0xc3, 0xd4] example_now (Some [])
                         ''agent_register''
                         (Some [(''name'', AString ''bobby''),
                                (''description'', AString ''helper'')]))))
            ''agent_discover'' (Some [(''include_stale'', ABoolean True)]))
     = Content ''No agents currently registered.''"
proof -
  have 1: "fst (callTool sp_ok [0xa1, 0xb2, 0xc3, 0xd4] example_now (Some []) ''agent_register''
          (Some [(''name'', AString ''bobby''), (''description'', AString ''helper'')]))
     = Content (''{'' @ [CHR 0x22] @ ''agent_id'' @ [CHR 0x22] @ '':''
                  @ [CHR 0x22] @ ''bobby-a1b2c3d4'' @ [CHR 0x22] @ '',''
                  @ [CHR 0x22] @ ''message'' @ [CHR 0x22] @ '':''
                  @ [CHR 0x22] @ ''Registered. Use this agent_id for all subsequent calls.''
                  @ [CHR 0x22] @ ''}'')"
    by (simp add: callTool_def AgentRegisterSchema_def agentRegister_def generateAgentId_def
          to_hex_def hex_byte_def hex_digit_def json_string_def json_escape_def)
  have 2: "fst (callTool sp_ok [0x01, 0x02, 0x03, 0x04] (example_now + 1000) (Some [])
            ''agent_discover'' (Some [(''include_stale'', ABoolean True)]))
     = Content ''No agents currently registered.''"
    by (simp add: callTool_def AgentDiscoverSchema_def agentDiscover_def getActiveAgents_def)
  show ?thesis
    unfolding callTool_leaves_directory using 1 2 by blast
qed

section \<open>Broadcast and groups\<close>

text \<open>
  Neither the arguments of a broadcast nor a presence record has a group: the schema and
  \<^verbatim>\<open>getActiveAgents\<close> read the members they name and no other.
\<close>

lemma map_of_filter_key:
  "key \<noteq> dropped \<Longrightarrow> map_of (filter (\<lambda>(k, v). k \<noteq> dropped) members) key = map_of members key"
  by (induction members) auto

lemma map_filter_filter_map:
  "(\<And>x. g (h x) = g x) \<Longrightarrow> (\<And>x. P (h x) = P x) \<Longrightarrow>
     List.map_filter g (filter P (map h xs)) = List.map_filter g (filter P xs)"
  by (induction xs) (auto simp: List.map_filter_simps split: option.splits)

lemma AgentBroadcastSchema_drops_group:
  "AgentBroadcastSchema (Some (filter (\<lambda>(k, v). k \<noteq> ''group'') members))
     = AgentBroadcastSchema (Some members)"
  by (simp add: AgentBroadcastSchema_def map_of_filter_key)

lemma agentOfFile_drops_group:
  "agentOfFile incl now
     (f\<lparr>parsed := map_option
          (\<lambda>data. case data of
                     JObject members \<Rightarrow> JObject (filter (\<lambda>(k, v). k \<noteq> ''group'') members)
                   | JNull \<Rightarrow> JNull
                   | JOther \<Rightarrow> JOther)
          (parsed f)\<rparr>)
     = agentOfFile incl now f"
  by (cases "parsed f")
     (auto simp: agentOfFile_def pane_address_def map_of_filter_key Let_def
           split: option.splits json.splits)

text \<open>
  Claim C6, as amended. Broadcast accepts no group argument: its schema declares
  \<^verbatim>\<open>agent_id\<close>, \<^verbatim>\<open>message\<close> and \<^verbatim>\<open>priority\<close> and drops a \<^verbatim>\<open>group\<close> member, so the call
  with it is the call without it. A presence record carries no group either: discovery
  reads the same records whether or not the presence files name one. Whatever group the
  arguments or the files name, the fan-out goes to every active agent that has a pane
  address, except the sender.
\<close>

theorem broadcast_has_no_group_scope:
  "callTool sp bytes now dir ''agent_broadcast'' (Some args)
     = callTool sp bytes now dir ''agent_broadcast''
         (Some (filter (\<lambda>(k, v). k \<noteq> ''group'') args))
   \<and> getActiveAgents include_stale now
        (Some (map (\<lambda>f. f\<lparr>parsed := map_option
                          (\<lambda>data. case data of
                                     JObject members \<Rightarrow>
                                       JObject (filter (\<lambda>(k, v). k \<noteq> ''group'') members)
                                   | JNull \<Rightarrow> JNull
                                   | JOther \<Rightarrow> JOther)
                          (parsed f)\<rparr>) entries))
       = getActiveAgents include_stale now (Some entries)
   \<and> (AgentBroadcastSchema (Some args) = Some (agent_id, message, prio)
        \<longrightarrow> fst (snd (callTool sp bytes now dir ''agent_broadcast'' (Some args)))
              = map (\<lambda>t. (info_tmux_pane t, ''['' @ split_first agent_id @ ''] '' @ message))
                  (filter (\<lambda>a. info_tmux_pane a \<noteq> [])
                     (filter (\<lambda>a. info_id a \<noteq> agent_id) (getActiveAgents False now dir))))"
proof (intro conjI impI)
  show "callTool sp bytes now dir ''agent_broadcast'' (Some args)
     = callTool sp bytes now dir ''agent_broadcast''
         (Some (filter (\<lambda>(k, v). k \<noteq> ''group'') args))"
    by (simp add: callTool_def AgentBroadcastSchema_drops_group)
next
  let ?strip = "\<lambda>f. f\<lparr>parsed := map_option
                          (\<lambda>data. case data of
                                     JObject members \<Rightarrow>
                                       JObject (filter (\<lambda>(k, v). k \<noteq> ''group'') members)
                                   | JNull \<Rightarrow> JNull
                                   | JOther \<Rightarrow> JOther)
                          (parsed f)\<rparr>"
  have same_record: "agentOfFile include_stale now (?strip f) = agentOfFile include_stale now f"
    for f by (rule agentOfFile_drops_group)
  have same_name: "is_agent_file (fname (?strip f)) = is_agent_file (fname f)" for f
    by simp
  have "List.map_filter (agentOfFile include_stale now)
          (filter (\<lambda>f. is_agent_file (fname f)) (map ?strip entries))
        = List.map_filter (agentOfFile include_stale now)
            (filter (\<lambda>f. is_agent_file (fname f)) entries)"
    using same_record same_name by (rule map_filter_filter_map)
  then show "getActiveAgents include_stale now (Some (map ?strip entries))
               = getActiveAgents include_stale now (Some entries)"
    by (simp only: getActiveAgents_Some)
next
  assume "AgentBroadcastSchema (Some args) = Some (agent_id, message, prio)"
  then have "fst (snd (callTool sp bytes now dir ''agent_broadcast'' (Some args)))
               = snd (agentBroadcast sp now dir agent_id message prio)"
    by (simp add: callTool_def split_beta)
  also have "\<dots> = map (\<lambda>t. (info_tmux_pane t, ''['' @ split_first agent_id @ ''] '' @ message))
                  (filter (\<lambda>a. info_tmux_pane a \<noteq> [])
                     (filter (\<lambda>a. info_id a \<noteq> agent_id) (getActiveAgents False now dir)))"
    by (simp add: broadcast_calls conj_commute)
  finally show "fst (snd (callTool sp bytes now dir ''agent_broadcast'' (Some args)))
              = map (\<lambda>t. (info_tmux_pane t, ''['' @ split_first agent_id @ ''] '' @ message))
                  (filter (\<lambda>a. info_tmux_pane a \<noteq> [])
                     (filter (\<lambda>a. info_id a \<noteq> agent_id) (getActiveAgents False now dir)))" .
qed

theorem broadcast_has_no_group_scope_witness:
  "callTool sp_ok [0x01, 0x02, 0x03, 0x04] example_now (Some [file_bobby, file_alice])
     ''agent_broadcast''
     (Some [(''agent_id'', AString ''zed-eeee5555''), (''message'', AString ''hi''),
            (''group'', AString ''default'')])
     = callTool sp_ok [0x01, 0x02, 0x03, 0x04] example_now (Some [file_bobby, file_alice])
         ''agent_broadcast''
         (Some [(''agent_id'', AString ''zed-eeee5555''), (''message'', AString ''hi'')])
   \<and> fst (snd (callTool sp_ok [0x01, 0x02, 0x03, 0x04] example_now
                  (Some [file_bobby, file_alice]) ''agent_broadcast''
                  (Some [(''agent_id'', AString ''zed-eeee5555''), (''message'', AString ''hi''),
                         (''group'', AString ''default'')])))
     = [(''main:1.0'', ''[zed] hi''), (''main:1.1'', ''[zed] hi'')]"
proof -
  let ?args = "[(''agent_id'', AString ''zed-eeee5555''), (''message'', AString ''hi''),
                (''group'', AString ''default'')]"
  note inst = broadcast_has_no_group_scope[of sp_ok "[0x01, 0x02, 0x03, 0x04]" example_now
      "Some [file_bobby, file_alice]" ?args False "[]" "''zed-eeee5555''" "''hi''" Normal]
  have stripped: "filter (\<lambda>(k, v). k \<noteq> ''group'') ?args
      = [(''agent_id'', AString ''zed-eeee5555''), (''message'', AString ''hi'')]"
    by simp
  have schema: "AgentBroadcastSchema (Some ?args) = Some (''zed-eeee5555'', ''hi'', Normal)"
    by (simp add: AgentBroadcastSchema_def)
  have active: "getActiveAgents False example_now (Some [file_bobby, file_alice])
                  = [info_bobby, info_alice]"
    by (simp add: presence_defs example_defs)
  from inst have 1: "callTool sp_ok [0x01, 0x02, 0x03, 0x04] example_now
      (Some [file_bobby, file_alice]) ''agent_broadcast'' (Some ?args)
     = callTool sp_ok [0x01, 0x02, 0x03, 0x04] example_now (Some [file_bobby, file_alice])
         ''agent_broadcast'' (Some (filter (\<lambda>(k, v). k \<noteq> ''group'') ?args))"
    by blast
  from inst schema have "fst (snd (callTool sp_ok [0x01, 0x02, 0x03, 0x04] example_now
                  (Some [file_bobby, file_alice]) ''agent_broadcast'' (Some ?args)))
     = map (\<lambda>t. (info_tmux_pane t, ''['' @ split_first ''zed-eeee5555'' @ ''] '' @ ''hi''))
         (filter (\<lambda>a. info_tmux_pane a \<noteq> [])
            (filter (\<lambda>a. info_id a \<noteq> ''zed-eeee5555'')
               (getActiveAgents False example_now (Some [file_bobby, file_alice]))))"
    by blast
  then have 2: "fst (snd (callTool sp_ok [0x01, 0x02, 0x03, 0x04] example_now
                  (Some [file_bobby, file_alice]) ''agent_broadcast'' (Some ?args)))
     = [(''main:1.0'', ''[zed] hi''), (''main:1.1'', ''[zed] hi'')]"
    unfolding active by (simp add: info_bobby_def info_alice_def split_first_def)
  from 1 2 show ?thesis unfolding stripped by blast
qed

text \<open>
  The claim as stated fails: a broadcast for the group \<^verbatim>\<open>default\<close> is delivered to bobby
  as well, whose presence file says \<^verbatim>\<open>research\<close>.
\<close>

theorem broadcast_for_a_group_reaches_every_agent_counterexample:
  "map_option (\<lambda>data. field data ''group'') (parsed file_bobby) = Some (Some ''research'')
   \<and> map_option (\<lambda>data. field data ''group'') (parsed file_alice) = Some (Some ''default'')
   \<and> callTool sp_ok [0x01, 0x02, 0x03, 0x04] example_now (Some [file_bobby, file_alice])
        ''agent_broadcast''
        (Some [(''agent_id'', AString ''zed-eeee5555''), (''message'', AString ''hi''),
               (''group'', AString ''default'')])
       = (Content (''Broadcast sent to 2 agent(s):'' @ nl @ check_mark @ '' bobby'' @ nl
                     @ check_mark @ '' alice''),
          [(''main:1.0'', ''[zed] hi''), (''main:1.1'', ''[zed] hi'')],
          Some [file_bobby, file_alice])"
proof -
  have active: "getActiveAgents False example_now (Some [file_bobby, file_alice])
                  = [info_bobby, info_alice]"
    by (simp add: presence_defs example_defs)
  have groups: "map_option (\<lambda>data. field data ''group'') (parsed file_bobby)
                  = Some (Some ''research'')
      \<and> map_option (\<lambda>data. field data ''group'') (parsed file_alice) = Some (Some ''default'')"
    by (simp add: file_bobby_def file_alice_def)
  have sent: "agentBroadcast sp_ok example_now (Some [file_bobby, file_alice])
                ''zed-eeee5555'' ''hi'' Normal
       = (''Broadcast sent to 2 agent(s):'' @ nl @ check_mark @ '' bobby'' @ nl
            @ check_mark @ '' alice'',
          [(''main:1.0'', ''[zed] hi''), (''main:1.1'', ''[zed] hi'')])"
    by (simp add: agentBroadcast_def active Let_def info_bobby_def info_alice_def
          split_first_def delivery_line_def runSnd_def sp_ok_def digit_char_def)
  have "callTool sp_ok [0x01, 0x02, 0x03, 0x04] example_now (Some [file_bobby, file_alice])
        ''agent_broadcast''
        (Some [(''agent_id'', AString ''zed-eeee5555''), (''message'', AString ''hi''),
               (''group'', AString ''default'')])
       = (Content (''Broadcast sent to 2 agent(s):'' @ nl @ check_mark @ '' bobby'' @ nl
                     @ check_mark @ '' alice''),
          [(''main:1.0'', ''[zed] hi''), (''main:1.1'', ''[zed] hi'')],
          Some [file_bobby, file_alice])"
    by (simp add: callTool_def AgentBroadcastSchema_def sent)
  with groups show ?thesis by blast
qed

end
